theory Spec2Isabelle
  imports Complex_Main
begin

section \<open>Cycle calculator (utils/cycle_calculator.py)\<close>

text \<open>
  Dates are modelled by their proleptic Gregorian ordinal (what Python's
  \<^verbatim>\<open>date.toordinal()\<close> returns), so that \<^verbatim>\<open>(a - b).days\<close> is integer subtraction.
  A Python \<^verbatim>\<open>date\<close> ranges from \<^verbatim>\<open>date.min\<close> = 0001-01-01, of ordinal 1, to
  \<^verbatim>\<open>date.max\<close> = 9999-12-31, of ordinal 3652059. \<^verbatim>\<open>d + timedelta(days=n)\<close> raises
  \<^verbatim>\<open>OverflowError\<close> when the sum leaves this range, and \<^verbatim>\<open>timedelta(days=n)\<close> does
  so itself when the magnitude of \<open>n\<close> exceeds 999999999: \<open>date_add\<close> is this
  addition, with \<^const>\<open>None\<close> for the raise.

  The average cycle length is a Python float obtained by \<^verbatim>\<open>statistics.mean\<close> from
  integers in the range 21..35 (or the integer default 28). It is modelled by the
  exact rational mean. Every comparison the code makes on it (against an integer cycle
  day, after subtracting the integer 14) and the truncation \<^verbatim>\<open>int(...)\<close> have the same
  outcome on the rounded float as on the exact rational, because integers in this range
  are floats and rounding is monotone.
\<close>

type_synonym date = int

definition date_min :: date where
  "date_min = 1"

definition date_max :: date where
  "date_max = 3652059"

definition date_add :: "date \<Rightarrow> int \<Rightarrow> date option" where
  "date_add d days =
     (if \<bar>days\<bar> \<le> 999999999 \<and> date_min \<le> d + days \<and> d + days \<le> date_max
      then Some (d + days) else None)"

text \<open>The constants set in \<^verbatim>\<open>MenstrualCycleCalculator.__init__\<close>.\<close>

definition default_cycle_length :: int where
  "default_cycle_length = 28"

definition default_period_length :: int where
  "default_period_length = 5"

definition luteal_phase_length :: int where
  "luteal_phase_length = 14"

text \<open>\<^verbatim>\<open>_get_current_phase(cycle_day, cycle_length)\<close>: an if/elif chain returning a string.\<close>

definition get_current_phase :: "int \<Rightarrow> rat \<Rightarrow> string" where
  "get_current_phase cycle_day cycle_length =
     (if cycle_day \<le> 5 then ''menstrual''
      else if of_int cycle_day \<le> cycle_length - of_int luteal_phase_length then ''follicular''
      else if \<bar>of_int cycle_day - (cycle_length - of_int luteal_phase_length)\<bar> \<le> 2
        then ''ovulation''
      else ''luteal'')"

text \<open>\<^verbatim>\<open>HormoneLevel\<close> (schemas/cycle.py): three qualitative levels, kept as strings.\<close>

record HormoneLevel =
  estrogen_level :: string
  progesterone_level :: string
  testosterone_level :: string

text \<open>\<^verbatim>\<open>_predict_hormone_levels\<close>: a fixed table keyed by the phase.\<close>

definition predict_hormone_levels :: "int \<Rightarrow> rat \<Rightarrow> HormoneLevel" where
  "predict_hormone_levels cycle_day cycle_length =
     (let phase = get_current_phase cycle_day cycle_length in
      if phase = ''menstrual'' then
        \<lparr>estrogen_level = ''low'', progesterone_level = ''low'', testosterone_level = ''medium''\<rparr>
      else if phase = ''follicular'' then
        \<lparr>estrogen_level = (if cycle_day < 10 then ''medium'' else ''high''),
         progesterone_level = ''low'', testosterone_level = ''medium''\<rparr>
      else if phase = ''ovulation'' then
        \<lparr>estrogen_level = ''high'', progesterone_level = ''low'', testosterone_level = ''high''\<rparr>
      else
        \<lparr>estrogen_level = ''medium'', progesterone_level = ''high'', testosterone_level = ''low''\<rparr>)"

text \<open>
  \<^verbatim>\<open>_predict_symptoms\<close>: \<^verbatim>\<open>phase_symptoms.get(phase, [])\<close>; the entries are not read.
\<close>

definition predict_symptoms :: "string \<Rightarrow> string list" where
  "predict_symptoms phase =
     (if phase = ''menstrual'' then [''cramps'', ''bloating'', ''back_pain'']
      else if phase = ''follicular'' then []
      else if phase = ''ovulation'' then [''breast_tenderness'']
      else if phase = ''luteal'' then [''bloating'', ''headache'', ''food_cravings'', ''acne'']
      else [])"

text \<open>\<^verbatim>\<open>_predict_fertility\<close>.\<close>

definition predict_fertility :: "int \<Rightarrow> rat \<Rightarrow> string" where
  "predict_fertility cycle_day cycle_length =
     (let ovulation_day = cycle_length - of_int luteal_phase_length in
      if \<bar>of_int cycle_day - ovulation_day\<bar> \<le> 1 then ''high''
      else if \<bar>of_int cycle_day - ovulation_day\<bar> \<le> 3 then ''medium''
      else ''low'')"

subsection \<open>Entries and period starts\<close>

text \<open>
  An entry is a dictionary; the calculator reads the keys \<^verbatim>\<open>date\<close> and
  \<^verbatim>\<open>is_period_day\<close> (and \<^verbatim>\<open>moods\<close> in the mood forecast).
\<close>

record cycle_entry =
  date :: date
  is_period_day :: bool
  moods :: "string list"

text \<open>
  \<^verbatim>\<open>_get_period_starts\<close>: the loop over the entries sorted by date, with the flag
  \<^verbatim>\<open>in_period\<close> as an argument. Python's \<^verbatim>\<open>sorted\<close> is stable, as \<^const>\<open>sort_key\<close> is.
\<close>

fun period_starts_loop :: "bool \<Rightarrow> cycle_entry list \<Rightarrow> date list" where
  "period_starts_loop in_period [] = []"
| "period_starts_loop in_period (entry # rest) =
     (if is_period_day entry \<and> \<not> in_period then date entry # period_starts_loop True rest
      else if \<not> is_period_day entry then period_starts_loop False rest
      else period_starts_loop in_period rest)"

definition get_period_starts :: "cycle_entry list \<Rightarrow> date list" where
  "get_period_starts entries = period_starts_loop False (sort_key date entries)"

text \<open>
  \<^verbatim>\<open>_calculate_period_length\<close>: the loop with its two \<^verbatim>\<open>break\<close>s; the arguments are
  \<^verbatim>\<open>start_date\<close>, the counter \<^verbatim>\<open>period_days\<close> and \<^verbatim>\<open>current_date\<close>. The loop is
  \<^const>\<open>None\<close> where \<^verbatim>\<open>current_date += timedelta(days=1)\<close> raises. The function
  returns an \<^verbatim>\<open>Optional[int]\<close>: its result is \<^const>\<open>None\<close> for the raise,
  \<open>Some None\<close> for the returned null and \<open>Some (Some n)\<close> for a returned length.
\<close>

fun period_length_loop :: "date \<Rightarrow> int \<Rightarrow> date \<Rightarrow> cycle_entry list \<Rightarrow> int option" where
  "period_length_loop start_date period_days current_date [] = Some period_days"
| "period_length_loop start_date period_days current_date (entry # rest) =
     (if start_date \<le> date entry \<and> is_period_day entry then
        (if date entry = current_date
         then (case date_add current_date 1 of
                 None \<Rightarrow> None
               | Some next_date \<Rightarrow>
                   period_length_loop start_date (period_days + 1) next_date rest)
         else Some period_days)
      else if start_date < date entry then Some period_days
      else period_length_loop start_date period_days current_date rest)"

definition calculate_period_length :: "cycle_entry list \<Rightarrow> date \<Rightarrow> int option option" where
  "calculate_period_length entries start_date =
     (case period_length_loop start_date 0 start_date (sort_key date entries) of
        None \<Rightarrow> None
      | Some period_days \<Rightarrow> Some (if 0 < period_days then Some period_days else None))"

subsection \<open>Statistics\<close>

text \<open>
  \<^verbatim>\<open>statistics.mean\<close> raises \<^verbatim>\<open>StatisticsError\<close> on an empty list: that is the value
  \<^const>\<open>None\<close>. \<^verbatim>\<open>int(x)\<close> truncates towards zero.
\<close>

definition statistics_mean :: "int list \<Rightarrow> rat option" where
  "statistics_mean xs =
     (if xs = [] then None else Some (of_int (sum_list xs) / of_nat (length xs)))"

definition py_int :: "rat \<Rightarrow> int" where
  "py_int x = (if 0 \<le> x then \<lfloor>x\<rfloor> else \<lceil>x\<rceil>)"

text \<open>\<^verbatim>\<open>CycleStats\<close> (schemas/cycle.py); every optional field defaults to null.\<close>

record CycleStats =
  average_cycle_length :: "rat option"
  average_period_length :: "rat option"
  last_period_start :: "date option"
  next_predicted_period :: "date option"
  next_predicted_ovulation :: "date option"
  current_cycle_day :: "int option"
  current_phase :: "string option"
  total_cycles_tracked :: int

text \<open>
  The two loops of \<^verbatim>\<open>calculate_cycle_stats\<close> that fill \<^verbatim>\<open>cycle_lengths\<close> and
  \<^verbatim>\<open>period_lengths\<close>; the second raises as soon as a period length does.
\<close>

definition valid_cycle_lengths :: "date list \<Rightarrow> int list" where
  "valid_cycle_lengths period_starts =
     filter (\<lambda>cycle_length. 21 \<le> cycle_length \<and> cycle_length \<le> 35)
       (map (\<lambda>i. period_starts ! i - period_starts ! (i - 1)) [1..<length period_starts])"

fun period_lengths_of :: "cycle_entry list \<Rightarrow> date list \<Rightarrow> int list option" where
  "period_lengths_of entries [] = Some []"
| "period_lengths_of entries (start_date # rest) =
     (case calculate_period_length entries start_date of
        None \<Rightarrow> None
      | Some period_length \<Rightarrow>
          (case period_lengths_of entries rest of
             None \<Rightarrow> None
           | Some period_lengths \<Rightarrow>
               Some ((case period_length of
                        None \<Rightarrow> []
                      | Some n \<Rightarrow> if n \<noteq> 0 then [n] else []) @ period_lengths)))"

text \<open>
  \<^verbatim>\<open>calculate_cycle_stats\<close>, with \<^verbatim>\<open>date.today()\<close> as the argument \<open>today\<close>. The result
  is \<^const>\<open>None\<close> where the Python raises: in a period length, in a mean of an empty
  list, or in one of the two additions to the last period start.
  A \<^verbatim>\<open>date\<close> is always truthy, so \<^verbatim>\<open>if last_period\<close> tests for null only.
\<close>

definition calculate_cycle_stats :: "date \<Rightarrow> cycle_entry list \<Rightarrow> CycleStats option" where
  "calculate_cycle_stats today entries =
     (let period_starts = get_period_starts entries in
      if length period_starts < 2 then
        Some \<lparr>average_cycle_length = None, average_period_length = None,
              last_period_start = (if period_starts \<noteq> [] then Some (period_starts ! 0) else None),
              next_predicted_period = None, next_predicted_ovulation = None,
              current_cycle_day = None, current_phase = None,
              total_cycles_tracked = int (length period_starts)\<rparr>
      else
        let cycle_lengths = valid_cycle_lengths period_starts in
        (case period_lengths_of entries period_starts of
           None \<Rightarrow> None
         | Some period_lengths \<Rightarrow>
        (case (if cycle_lengths \<noteq> [] then statistics_mean cycle_lengths
               else Some (of_int default_cycle_length)) of
           None \<Rightarrow> None
         | Some avg_cycle_length \<Rightarrow>
        (case (if period_lengths \<noteq> [] then statistics_mean period_lengths
               else Some (of_int default_period_length)) of
           None \<Rightarrow> None
         | Some avg_period_length \<Rightarrow>
          let last_period = (if period_starts \<noteq> [] then Some (last period_starts) else None) in
          (case last_period of
             Some lp \<Rightarrow>
               (case date_add lp (py_int avg_cycle_length) of
                  None \<Rightarrow> None
                | Some next_period \<Rightarrow>
               (case date_add lp (py_int (avg_cycle_length - of_int luteal_phase_length)) of
                  None \<Rightarrow> None
                | Some next_ovulation \<Rightarrow>
                  Some \<lparr>average_cycle_length = Some avg_cycle_length,
                        average_period_length = Some avg_period_length,
                        last_period_start = last_period,
                        next_predicted_period = Some next_period,
                        next_predicted_ovulation = Some next_ovulation,
                        current_cycle_day = Some ((today - lp) + 1),
                        current_phase =
                          Some (get_current_phase ((today - lp) + 1) avg_cycle_length),
                        total_cycles_tracked = int (length period_starts)\<rparr>))
           | None \<Rightarrow>
               Some \<lparr>average_cycle_length = Some avg_cycle_length,
                     average_period_length = Some avg_period_length,
                     last_period_start = None,
                     next_predicted_period = None, next_predicted_ovulation = None,
                     current_cycle_day = None, current_phase = None,
                     total_cycles_tracked = int (length period_starts)\<rparr>)))))"

subsection \<open>Predictions\<close>

text \<open>
  \<^verbatim>\<open>CyclePrediction\<close> (schemas/cycle.py). The field \<^verbatim>\<open>predicted_mood\<close> is
  \<^verbatim>\<open>list(set(predicted))[:3]\<close>: the first three elements of a Python set of strings in
  its iteration order, which the source does not determine; it is left out of the record.
\<close>

record CyclePrediction =
  date_cp :: date
  cycle_day :: int
  phase :: string
  predicted_symptoms :: "string list"
  hormone_levels :: HormoneLevel
  fertility_status :: string

text \<open>
  The loop of \<^verbatim>\<open>generate_predictions\<close> over the offsets \<^verbatim>\<open>range(days_ahead)\<close>. It is
  \<^const>\<open>None\<close> where an iteration raises: \<^verbatim>\<open>date.today() + timedelta(days=i)\<close> out of
  the range of dates, or a modulus of zero.
\<close>

fun predictions_loop ::
    "date \<Rightarrow> date \<Rightarrow> rat \<Rightarrow> nat list \<Rightarrow> CyclePrediction list option" where
  "predictions_loop today lps cycle_length [] = Some []"
| "predictions_loop today lps cycle_length (i # rest) =
     (case date_add today (int i) of
        None \<Rightarrow> None
      | Some prediction_date \<Rightarrow>
          if py_int cycle_length = 0 then None
          else
            (let days_since_last_period = prediction_date - lps;
                 cd = (days_since_last_period mod py_int cycle_length) + 1;
                 ph = get_current_phase cd cycle_length;
                 prediction =
                   \<lparr>date_cp = prediction_date, cycle_day = cd, phase = ph,
                    predicted_symptoms = predict_symptoms ph,
                    hormone_levels = predict_hormone_levels cd cycle_length,
                    fertility_status = predict_fertility cd cycle_length\<rparr>
             in case predictions_loop today lps cycle_length rest of
                  None \<Rightarrow> None
                | Some predictions \<Rightarrow> Some (prediction # predictions)))"

text \<open>
  \<^verbatim>\<open>generate_predictions\<close>. \<^verbatim>\<open>range(days_ahead)\<close> is empty for a negative argument.
  \<^verbatim>\<open>x or default\<close> takes the default for null and for 0.0. The result is \<^const>\<open>None\<close>
  where the Python raises: when the statistics raise, or when the loop does.
\<close>

definition generate_predictions ::
    "date \<Rightarrow> cycle_entry list \<Rightarrow> int \<Rightarrow> CyclePrediction list option" where
  "generate_predictions today entries days_ahead =
     (case calculate_cycle_stats today entries of
        None \<Rightarrow> None
      | Some stats \<Rightarrow>
        (case last_period_start stats of
           None \<Rightarrow> Some []
         | Some lps \<Rightarrow>
           let cycle_length =
                 (case average_cycle_length stats of
                    None \<Rightarrow> of_int default_cycle_length
                  | Some a \<Rightarrow> if a = 0 then of_int default_cycle_length else a)
           in predictions_loop today lps cycle_length [0..<nat days_ahead]))"

section \<open>Symptom predictor (utils/symptom_predictor.py)\<close>

text \<open>
  \<^verbatim>\<open>SymptomResponse\<close> (schemas/symptoms.py), with the fields the predictor reads. The
  optional fields are strings or null. \<^verbatim>\<open>PredictedSymptom\<close> and \<^verbatim>\<open>Suggestion\<close> are
  as declared. A probability is a Python float; it is modelled by the exact fraction
  that the float rounds. A rate over at most seven entries compares against 0.6 and 0.8
  as a float the way it does as a fraction: the only such rates to equal 3/5 or 4/5 are
  computed by a correctly rounded division, which yields the float of the literal.
\<close>

record SymptomResponse =
  date_sr :: date
  mood :: "string option"
  cramps :: "string option"
  headache :: bool
  nausea :: bool
  fatigue :: bool
  flow_level :: "string option"
  sleep_quality :: "string option"

record PredictedSymptom =
  symptom :: string
  probability :: rat
  confidence :: string

record Suggestion =
  category :: string
  title :: string
  description :: string
  priority :: string

subsection \<open>Candidate predictions\<close>











subsection \<open>Suggestions\<close>

text \<open>
  \<^verbatim>\<open>_load_suggestion_database\<close>: the dictionary as an association list. Strings are
  bytes, so the degree sign of one description is written as its two UTF-8 bytes.
\<close>

definition load_suggestion_database :: "(string \<times> Suggestion list) list" where
  "load_suggestion_database =
    [
     (''headache'',
       [
        \<lparr>category = ''remedy'', title = ''Stay Hydrated'',
          description =
            ''Drink plenty of water throughout the day. Dehydration is a common headache trigger.'',
          priority = ''high''\<rparr>,
        \<lparr>category = ''lifestyle'', title = ''Rest in Dark Room'',
          description =
            ''Find a quiet, dark room to rest. Reduce screen time and bright lights.'',
          priority = ''high''\<rparr>,
        \<lparr>category = ''remedy'', title = ''Cold/Warm Compress'',
          description =
            ''Apply a cold compress to your forehead or a warm compress to your neck and shoulders.'',
          priority = ''medium''\<rparr>,
        \<lparr>category = ''medical'', title = ''Over-the-Counter Pain Relief'',
          description =
            ''Consider ibuprofen or acetaminophen as directed. Consult healthcare provider if frequent.'',
          priority = ''medium''\<rparr>]),
     (''cramps'',
       [
        \<lparr>category = ''remedy'', title = ''Heat Therapy'',
          description =
            ''Use a heating pad or hot water bottle on your lower abdomen or back.'',
          priority = ''high''\<rparr>,
        \<lparr>category = ''lifestyle'', title = ''Gentle Exercise'',
          description =
            ''Try light walking, yoga, or stretching to help relieve cramps.'',
          priority = ''high''\<rparr>,
        \<lparr>category = ''remedy'', title = ''Warm Bath'',
          description =
            ''Take a warm bath with Epsom salts to relax muscles and reduce pain.'',
          priority = ''medium''\<rparr>,
        \<lparr>category = ''medical'', title = ''Anti-inflammatory Medication'',
          description =
            ''Consider ibuprofen or naproxen to reduce inflammation and pain.'',
          priority = ''medium''\<rparr>]),
     (''nausea'',
       [
        \<lparr>category = ''remedy'', title = ''Ginger Tea'',
          description =
            ''Drink ginger tea or chew on fresh ginger to help settle your stomach.'',
          priority = ''high''\<rparr>,
        \<lparr>category = ''lifestyle'', title = ''Small, Frequent Meals'',
          description =
            ''Eat small, bland meals throughout the day. Avoid greasy or spicy foods.'',
          priority = ''high''\<rparr>,
        \<lparr>category = ''remedy'', title = ''Peppermint'',
          description =
            ''Try peppermint tea or aromatherapy to help reduce nausea.'',
          priority = ''medium''\<rparr>]),
     (''fatigue'',
       [
        \<lparr>category = ''lifestyle'', title = ''Prioritize Sleep'',
          description =
            ''Aim for 7-9 hours of quality sleep. Maintain a consistent sleep schedule.'',
          priority = ''high''\<rparr>,
        \<lparr>category = ''lifestyle'', title = ''Iron-Rich Foods'',
          description =
            ''Include iron-rich foods like spinach, lean meats, and legumes in your diet.'',
          priority = ''high''\<rparr>,
        \<lparr>category = ''lifestyle'', title = ''Light Exercise'',
          description =
            ''Gentle exercise can boost energy levels. Try a short walk or light stretching.'',
          priority = ''medium''\<rparr>]),
     (''mood'',
       [
        \<lparr>category = ''lifestyle'', title = ''Mindfulness Practice'',
          description =
            ''Try meditation, deep breathing, or mindfulness exercises for 10-15 minutes.'',
          priority = ''high''\<rparr>,
        \<lparr>category = ''lifestyle'', title = ''Social Connection'',
          description =
            ''Reach out to friends or family. Social support can improve mood.'',
          priority = ''medium''\<rparr>,
        \<lparr>category = ''lifestyle'', title = ''Sunlight Exposure'',
          description =
            ''Spend time outdoors or near a bright window to boost mood naturally.'',
          priority = ''medium''\<rparr>]),
     (''sleep'',
       [
        \<lparr>category = ''lifestyle'', title = ''Sleep Hygiene'',
          description =
            ''Create a relaxing bedtime routine. Avoid screens 1 hour before bed.'',
          priority = ''high''\<rparr>,
        \<lparr>category = ''remedy'', title = ''Herbal Tea'',
          description =
            ''Try chamomile or valerian root tea 30 minutes before bedtime.'',
          priority = ''medium''\<rparr>,
        \<lparr>category = ''lifestyle'', title = ''Cool, Dark Environment'',
          description =
            ''Keep your bedroom cool (65-68'' @ [CHR 0xC2, CHR 0xB0] @ ''F) and as dark as possible.'',
          priority = ''medium''\<rparr>])]"

text \<open>
  \<^verbatim>\<open>self.suggestion_database[key]\<close>. The code subscripts with keys of the dictionary
  only (or after testing \<^verbatim>\<open>key in self.suggestion_database\<close>), so no \<^verbatim>\<open>KeyError\<close> is
  raised; for any other key the value here is the empty list.
\<close>

definition suggestion_database :: "string \<Rightarrow> Suggestion list" where
  "suggestion_database key =
     (case map_of load_suggestion_database key of None \<Rightarrow> [] | Some entries \<Rightarrow> entries)"

text \<open>\<^verbatim>\<open>_get_current_symptom_suggestions\<close>: the suggestions and the names they rest on.\<close>

definition get_current_symptom_suggestions ::
    "SymptomResponse \<Rightarrow> Suggestion list \<times> string list" where
  "get_current_symptom_suggestions symptoms =
     (let (s1, b1) = (if headache symptoms
                      then (suggestion_database ''headache'', [''headache'']) else ([], []));
          (s2, b2) = (if (case cramps symptoms of
                            None \<Rightarrow> False
                          | Some c \<Rightarrow> c \<noteq> [] \<and> c \<in> set [''moderate'', ''strong''])
                      then (suggestion_database ''cramps'', [''cramps'']) else ([], []));
          (s3, b3) = (if nausea symptoms
                      then (suggestion_database ''nausea'', [''nausea'']) else ([], []));
          (s4, b4) = (if fatigue symptoms
                      then (suggestion_database ''fatigue'', [''fatigue'']) else ([], []));
          (s5, b5) = (if (case mood symptoms of
                            None \<Rightarrow> False
                          | Some m \<Rightarrow> m \<in> set [''sad'', ''irritated'', ''anxious'', ''depressed''])
                      then (suggestion_database ''mood'', [''mood'']) else ([], []));
          (s6, b6) = (if (case sleep_quality symptoms of
                            None \<Rightarrow> False
                          | Some q \<Rightarrow> q \<in> set [''poor'', ''fair''])
                      then (suggestion_database ''sleep'', [''sleep_quality'']) else ([], []))
      in (s1 @ s2 @ s3 @ s4 @ s5 @ s6, b1 @ b2 @ b3 @ b4 @ b5 @ b6))"

text \<open>\<^verbatim>\<open>_convert_to_preventive\<close>: the lifestyle entries only, retitled.\<close>

definition convert_to_preventive :: "Suggestion list \<Rightarrow> Suggestion list" where
  "convert_to_preventive entries =
     map (\<lambda>suggestion.
            \<lparr>category = ''preventive'',
             title = ''Prevent: '' @ title suggestion,
             description = ''To prevent symptoms: '' @ description suggestion,
             priority = ''low''\<rparr>)
       (filter (\<lambda>suggestion. category suggestion = ''lifestyle'') entries)"

text \<open>\<^verbatim>\<open>_get_preventive_suggestions\<close>.\<close>

definition get_preventive_suggestions ::
    "PredictedSymptom list \<Rightarrow> Suggestion list \<times> string list" where
  "get_preventive_suggestions predicted =
     (let hits = filter (\<lambda>pred. 7 / 10 < probability pred
                           \<and> map_of load_suggestion_database (symptom pred) \<noteq> None) predicted
      in (concat (map (\<lambda>pred. convert_to_preventive (suggestion_database (symptom pred))) hits),
          map (\<lambda>pred. ''predicted_'' @ symptom pred) hits))"

text \<open>\<^verbatim>\<open>_get_general_wellness_suggestions\<close>.\<close>

definition get_general_wellness_suggestions :: "Suggestion list" where
  "get_general_wellness_suggestions =
     [\<lparr>category = ''lifestyle'', title = ''Stay Hydrated'',
       description = ''Drink at least 8 glasses of water throughout the day.'',
       priority = ''low''\<rparr>,
      \<lparr>category = ''lifestyle'', title = ''Balanced Nutrition'',
       description = ''Include fruits, vegetables, and whole grains in your meals.'',
       priority = ''low''\<rparr>]"

text \<open>
  \<^verbatim>\<open>_deduplicate_suggestions\<close>: \<^verbatim>\<open>priority_order.get(x.priority, 3)\<close>, the stable sort
  by it, the loop with the set \<^verbatim>\<open>seen\<close> of (title, category) keys, and the first ten.
\<close>

definition priority_order :: "string \<Rightarrow> nat" where
  "priority_order p =
     (if p = ''high'' then 0 else if p = ''medium'' then 1 else if p = ''low'' then 2 else 3)"

fun dedup_loop :: "(string \<times> string) set \<Rightarrow> Suggestion list \<Rightarrow> Suggestion list" where
  "dedup_loop seen [] = []"
| "dedup_loop seen (suggestion # rest) =
     (let key = (title suggestion, category suggestion) in
      if key \<notin> seen then suggestion # dedup_loop (insert key seen) rest
      else dedup_loop seen rest)"

definition deduplicate_suggestions :: "Suggestion list \<Rightarrow> Suggestion list" where
  "deduplicate_suggestions entries =
     (let sorted_suggestions = sort_key (\<lambda>x. priority_order (priority x)) entries
      in take 10 (dedup_loop {} sorted_suggestions))"

text \<open>
  \<^verbatim>\<open>generate_suggestions\<close>. A null \<^verbatim>\<open>current_symptoms\<close> is \<^const>\<open>None\<close>; an object is
  always truthy. \<^verbatim>\<open>based_on_symptoms\<close> is \<^verbatim>\<open>list(set(...))\<close>, whose order the source does
  not determine: it is kept as a set. \<open>produced_suggestions\<close> is the list
  \<^verbatim>\<open>suggestions\<close> just before it is deduplicated.
\<close>

record SuggestionResponse =
  suggestions :: "Suggestion list"
  based_on_symptoms :: "string set"
  date_sg :: date

definition produced_suggestions ::
    "SymptomResponse option \<Rightarrow> PredictedSymptom list \<Rightarrow> Suggestion list \<times> string list" where
  "produced_suggestions current_symptoms predicted =
     (let (s1, b1) = (case current_symptoms of
                        None \<Rightarrow> ([], [])
                      | Some cs \<Rightarrow> get_current_symptom_suggestions cs);
          (s2, b2) = (if predicted \<noteq> [] then get_preventive_suggestions predicted else ([], []))
      in (s1 @ s2 @ get_general_wellness_suggestions, b1 @ b2))"

definition generate_suggestions ::
    "date \<Rightarrow> SymptomResponse option \<Rightarrow> PredictedSymptom list \<Rightarrow> SuggestionResponse" where
  "generate_suggestions today current_symptoms predicted =
     (let (all_suggestions, based_on) = produced_suggestions current_symptoms predicted in
      \<lparr>suggestions = deduplicate_suggestions all_suggestions,
       based_on_symptoms = set based_on,
       date_sg = (case current_symptoms of None \<Rightarrow> today | Some cs \<Rightarrow> date_sr cs)\<rparr>)"

section \<open>Notions of the specification\<close>

text \<open>
  A maximal consecutive run of period days in a sequence of entries: the positions
  \<open>i..j\<close> all hold period days, and the run can be extended neither to the left nor
  to the right.
\<close>

definition is_max_run :: "cycle_entry list \<Rightarrow> nat \<Rightarrow> nat \<Rightarrow> bool" where
  "is_max_run s i j \<longleftrightarrow>
     i \<le> j \<and> j < length s
     \<and> (\<forall>k. i \<le> k \<and> k \<le> j \<longrightarrow> is_period_day (s ! k))
     \<and> (i = 0 \<or> \<not> is_period_day (s ! (i - 1)))
     \<and> (j + 1 = length s \<or> \<not> is_period_day (s ! (j + 1)))"

text \<open>
  Python's \<^verbatim>\<open>date(year, month, day).toordinal()\<close> (standard library): the days before
  the year, the days before the month, and the day. It is used to write calendar dates.
\<close>

definition date_ordinal :: "int \<Rightarrow> int \<Rightarrow> int \<Rightarrow> date" where
  "date_ordinal year month day =
     (let y = year - 1;
          days_before_year = y * 365 + y div 4 - y div 100 + y div 400;
          is_leap = (year mod 4 = 0 \<and> (year mod 100 \<noteq> 0 \<or> year mod 400 = 0));
          days_before_month =
            [0, 31, 59, 90, 120, 151, 181, 212, 243, 273, 304, 334] ! nat (month - 1)
            + (if 2 < month \<and> is_leap then 1 else 0)
      in days_before_year + days_before_month + day)"

text \<open>
  The gaps in days between consecutive period starts, all of them, whether plausible
  or not.
\<close>

definition all_cycle_gaps :: "date list \<Rightarrow> int list" where
  "all_cycle_gaps starts = map (\<lambda>i. starts ! i - starts ! (i - 1)) [1..<length starts]"

text \<open>The arithmetic mean of a list of integers, and a default when the list is empty.\<close>

definition mean_or :: "int \<Rightarrow> int list \<Rightarrow> rat" where
  "mean_or d xs = (if xs = [] then of_int d else of_int (sum_list xs) / of_nat (length xs))"

text \<open>
  The cycle length a prediction is computed with: the average of the statistics, and
  28 when the statistics carry none.
\<close>

definition cycle_length_of :: "CycleStats \<Rightarrow> rat" where
  "cycle_length_of stats = (case average_cycle_length stats of None \<Rightarrow> 28 | Some a \<Rightarrow> a)"

text \<open>
  The remainder of a division by a positive number that need not be whole (what
  Python's \<^verbatim>\<open>%\<close> computes on floats): the reading of ``mod cycle_length'' in which the
  cycle length is not truncated.
\<close>

definition float_mod :: "rat \<Rightarrow> rat \<Rightarrow> rat" where
  "float_mod x y = x - y * of_int \<lfloor>x / y\<rfloor>"

text \<open>
  The prediction at offset \<open>i\<close>, for a last period start \<open>lps\<close> and a cycle length
  \<open>cl\<close>, with the cycle day wrapped modulo the whole days of the cycle length.
\<close>

definition prediction_at :: "date \<Rightarrow> date \<Rightarrow> rat \<Rightarrow> nat \<Rightarrow> CyclePrediction" where
  "prediction_at today lps cl i =
     (let cd = (today + int i - lps) mod \<lfloor>cl\<rfloor> + 1 in
      \<lparr>date_cp = today + int i, cycle_day = cd, phase = get_current_phase cd cl,
       predicted_symptoms = predict_symptoms (get_current_phase cd cl),
       hormone_levels = predict_hormone_levels cd cl,
       fertility_status = predict_fertility cd cl\<rparr>)"

text \<open>
  A calendar date, and an entry list all of whose dates are calendar dates before the
  last one, 9999-12-31.
\<close>

definition valid_date :: "date \<Rightarrow> bool" where
  "valid_date d \<longleftrightarrow> date_min \<le> d \<and> d \<le> date_max"

definition entries_before_max :: "cycle_entry list \<Rightarrow> bool" where
  "entries_before_max es \<longleftrightarrow> (\<forall>e \<in> set es. date_min \<le> date e \<and> date e < date_max)"

text \<open>
  The next period predicted from an entry list: the last period start plus the whole
  days of the mean of the gaps of 21 to 35 days (of 28 when there is no such gap).
\<close>

definition predicted_next_period :: "cycle_entry list \<Rightarrow> int" where
  "predicted_next_period es =
     last (get_period_starts es)
     + \<lfloor>mean_or 28 (filter (\<lambda>g. 21 \<le> g \<and> g \<le> 35) (all_cycle_gaps (get_period_starts es)))\<rfloor>"






text \<open>
  The key suggestions are deduplicated by, the priority rank they are sorted by, and
  every suggestion that can be produced at all: the entries of the database, their
  preventive conversions, and the general wellness suggestions.
\<close>

definition suggestion_key :: "Suggestion \<Rightarrow> string \<times> string" where
  "suggestion_key s = (title s, category s)"

definition priority_rank :: "Suggestion \<Rightarrow> nat" where
  "priority_rank s = priority_order (priority s)"

definition all_catalog_suggestions :: "Suggestion list" where
  "all_catalog_suggestions =
     concat (map snd load_suggestion_database)
     @ concat (map (\<lambda>(k, v). convert_to_preventive v) load_suggestion_database)
     @ get_general_wellness_suggestions"

section \<open>Example inputs\<close>

text \<open>Five entries out of order: a run on days 1 to 3, a gap on day 10, a run on day 30.\<close>

definition ex_entries :: "cycle_entry list" where
  "ex_entries =
     [\<lparr>date = 3, is_period_day = True, moods = []\<rparr>,
      \<lparr>date = 1, is_period_day = True, moods = []\<rparr>,
      \<lparr>date = 2, is_period_day = True, moods = []\<rparr>,
      \<lparr>date = 30, is_period_day = True, moods = []\<rparr>,
      \<lparr>date = 10, is_period_day = False, moods = []\<rparr>]"

text \<open>One period (days 5 and 6), so one period start.\<close>

definition one_start_entries :: "cycle_entry list" where
  "one_start_entries =
     [\<lparr>date = 5, is_period_day = True, moods = []\<rparr>,
      \<lparr>date = 6, is_period_day = True, moods = []\<rparr>,
      \<lparr>date = 7, is_period_day = False, moods = []\<rparr>]"

text \<open>Period starts on days 1, 29 and 69: a gap of 28 days and a gap of 40 days.\<close>

definition gap40_entries :: "cycle_entry list" where
  "gap40_entries =
     [\<lparr>date = 1, is_period_day = True, moods = []\<rparr>,
      \<lparr>date = 2, is_period_day = False, moods = []\<rparr>,
      \<lparr>date = 29, is_period_day = True, moods = []\<rparr>,
      \<lparr>date = 30, is_period_day = False, moods = []\<rparr>,
      \<lparr>date = 69, is_period_day = True, moods = []\<rparr>]"

text \<open>Period starts on days 1, 29 and 58: gaps of 28 and 29 days, of mean 28.5.\<close>

definition frac_entries :: "cycle_entry list" where
  "frac_entries =
     [\<lparr>date = 1, is_period_day = True, moods = []\<rparr>,
      \<lparr>date = 2, is_period_day = False, moods = []\<rparr>,
      \<lparr>date = 29, is_period_day = True, moods = []\<rparr>,
      \<lparr>date = 30, is_period_day = False, moods = []\<rparr>,
      \<lparr>date = 58, is_period_day = True, moods = []\<rparr>]"

text \<open>Period starts on 2024-01-01 and 2024-01-29.\<close>

definition jan_entries :: "cycle_entry list" where
  "jan_entries =
     [\<lparr>date = date_ordinal 2024 1 1, is_period_day = True, moods = []\<rparr>,
      \<lparr>date = date_ordinal 2024 1 2, is_period_day = True, moods = []\<rparr>,
      \<lparr>date = date_ordinal 2024 1 3, is_period_day = False, moods = []\<rparr>,
      \<lparr>date = date_ordinal 2024 1 29, is_period_day = True, moods = []\<rparr>,
      \<lparr>date = date_ordinal 2024 1 30, is_period_day = True, moods = []\<rparr>]"

text \<open>Period starts on 9999-11-20 and 9999-12-18, 13 days before the last date.\<close>

definition near_max_entries :: "cycle_entry list" where
  "near_max_entries =
     [\<lparr>date = date_ordinal 9999 11 20, is_period_day = True, moods = []\<rparr>,
      \<lparr>date = date_ordinal 9999 11 21, is_period_day = False, moods = []\<rparr>,
      \<lparr>date = date_ordinal 9999 12 18, is_period_day = True, moods = []\<rparr>]"



text \<open>
  A day with a headache, strong cramps, nausea and fatigue, and a prediction of fatigue
  with probability 0.9.
\<close>

definition many_symptoms :: SymptomResponse where
  "many_symptoms =
     \<lparr>date_sr = 100, mood = None, cramps = Some ''strong'', headache = True, nausea = True,
      fatigue = True, flow_level = None, sleep_quality = None\<rparr>"

definition fatigue_predicted :: "PredictedSymptom list" where
  "fatigue_predicted = [\<lparr>symptom = ''fatigue'', probability = 9 / 10, confidence = ''high''\<rparr>]"

section \<open>Phase classifier\<close>

text \<open>
  Claim C1. The phase classifier is a total function of the cycle day and the cycle
  length. It returns menstrual exactly when the day is at most 5; otherwise follicular
  exactly when the day is at most the cycle length minus 14; otherwise ovulation exactly
  when the distance of the day from (cycle length minus 14) is at most 2; otherwise
  luteal. The four rules are tried in this order and the first that matches decides, so
  the result is always one of the four phases. This holds for every cycle day and every
  cycle length.
\<close>

theorem get_current_phase_rules:
  "get_current_phase d len \<in> {''menstrual'', ''follicular'', ''ovulation'', ''luteal''}
   \<and> (get_current_phase d len = ''menstrual'' \<longleftrightarrow> d \<le> 5)
   \<and> (get_current_phase d len = ''follicular'' \<longleftrightarrow>
        \<not> d \<le> 5 \<and> of_int d \<le> len - 14)
   \<and> (get_current_phase d len = ''ovulation'' \<longleftrightarrow>
        \<not> d \<le> 5 \<and> \<not> of_int d \<le> len - 14 \<and> \<bar>of_int d - (len - 14)\<bar> \<le> 2)
   \<and> (get_current_phase d len = ''luteal'' \<longleftrightarrow>
        \<not> d \<le> 5 \<and> \<not> of_int d \<le> len - 14 \<and> \<not> \<bar>of_int d - (len - 14)\<bar> \<le> 2)"
  by (simp add: get_current_phase_def luteal_phase_length_def)

text \<open>
  Claim C2, as the code has it. For a cycle length of 28 the classifier returns
  menstrual on day 1, luteal on day 20 and follicular on day 10. Day 14 is follicular
  too: the second rule (day at most 28 - 14) matches before the ovulation rule is
  tried. Ovulation is returned on days 15 and 16.
\<close>

theorem get_current_phase_examples:
  "get_current_phase 1 28 = ''menstrual''
   \<and> get_current_phase 14 28 = ''follicular''
   \<and> get_current_phase 20 28 = ''luteal''
   \<and> get_current_phase 10 28 = ''follicular''
   \<and> get_current_phase 15 28 = ''ovulation''
   \<and> get_current_phase 16 28 = ''ovulation''"
  by (simp add: get_current_phase_def luteal_phase_length_def)

text \<open>Claim C2 as stated fails on day 14: the result there is not ovulation.\<close>

theorem get_current_phase_day14_counterexample:
  "get_current_phase 14 28 \<noteq> ''ovulation''"
  by (simp add: get_current_phase_def luteal_phase_length_def)

section \<open>Period starts\<close>

text \<open>The loop, read by positions: a start is a period day whose predecessor is none.\<close>

lemma period_starts_loop_index:
  "period_starts_loop b s =
     map (\<lambda>i. date (s ! i))
       (filter (\<lambda>i. is_period_day (s ! i) \<and> (if i = 0 then \<not> b else \<not> is_period_day (s ! (i - 1))))
          [0..<length s])"
proof (induction s arbitrary: b)
  case Nil
  show ?case by simp
next
  case (Cons e rest)
  have upt: "[0..<length (e # rest)] = 0 # map Suc [0..<length rest]"
    by (simp add: upt_conv_Cons map_Suc_upt del: upt_Suc)
  have pr: "\<And>x. (is_period_day ((e # rest) ! Suc x) \<and>
            (if Suc x = 0 then \<not> b else \<not> is_period_day ((e # rest) ! (Suc x - 1))))
        = (is_period_day (rest ! x) \<and>
            (if x = 0 then \<not> is_period_day e else \<not> is_period_day (rest ! (x - 1))))"
    by (simp add: nth_Cons')
  have tl: "map (\<lambda>i. date ((e # rest) ! i))
       (filter (\<lambda>i. is_period_day ((e # rest) ! i) \<and>
            (if i = 0 then \<not> b else \<not> is_period_day ((e # rest) ! (i - 1))))
          (map Suc [0..<length rest]))
      = period_starts_loop (is_period_day e) rest"
    unfolding Cons.IH [of "is_period_day e"] filter_map map_map o_def pr
    by simp
  show ?case
    unfolding upt using tl by (cases b; cases "is_period_day e") (simp_all del: upt_Suc)
qed

lemma max_run_exists:
  assumes "i < length s" "is_period_day (s ! i)" "i = 0 \<or> \<not> is_period_day (s ! (i - 1))"
  shows "\<exists>j. is_max_run s i j"
proof -
  let ?P = "\<lambda>j. i \<le> j \<and> j < length s \<and> (\<forall>k. i \<le> k \<and> k \<le> j \<longrightarrow> is_period_day (s ! k))"
  have Pi: "?P i" using assms by auto
  have bound: "\<And>j. ?P j \<Longrightarrow> j \<le> length s" by auto
  define m where "m = (GREATEST j. ?P j)"
  have Pm: "?P m" unfolding m_def by (rule GreatestI_nat [where P = ?P, OF Pi bound])
  have top: "\<And>j. ?P j \<Longrightarrow> j \<le> m" unfolding m_def
    by (rule Greatest_le_nat [where P = ?P, OF _ bound])
  have "m + 1 = length s \<or> \<not> is_period_day (s ! (m + 1))"
  proof (rule ccontr)
    assume "\<not> ?thesis"
    then have a: "m + 1 < length s" "is_period_day (s ! (m + 1))" using Pm by auto
    have "?P (m + 1)"
    proof (intro conjI allI impI)
      show "i \<le> m + 1" using Pm by simp
      show "m + 1 < length s" by (rule a)
      fix k assume "i \<le> k \<and> k \<le> m + 1"
      then show "is_period_day (s ! k)" using Pm a(2) by (cases "k = m + 1") auto
    qed
    from top [OF this] show False by simp
  qed
  with Pm assms(3) show ?thesis unfolding is_max_run_def by blast
qed

lemma max_run_start_iff:
  "i < length s \<Longrightarrow>
   (\<exists>j. is_max_run s i j) \<longleftrightarrow> is_period_day (s ! i) \<and> (i = 0 \<or> \<not> is_period_day (s ! (i - 1)))"
  using max_run_exists [of i s] by (auto simp: is_max_run_def)

lemma max_run_end_unique:
  assumes "is_max_run s i j" "is_max_run s i j'"
  shows "j = j'"
proof (rule ccontr)
  assume ne: "j \<noteq> j'"
  { fix a b assume r: "is_max_run s i a" "is_max_run s i b" and lt: "a < b"
    then have "is_period_day (s ! (a + 1))" unfolding is_max_run_def by auto
    moreover have "a + 1 < length s" using r lt unfolding is_max_run_def by auto
    ultimately have False using r(1) unfolding is_max_run_def by auto }
  then show False using assms ne by (cases "j < j'") (auto simp: not_less le_less)
qed

lemma max_run_card:
  "card {(i, j). is_max_run s i j} = length (filter (\<lambda>i. \<exists>j. is_max_run s i j) [0..<length s])"
proof -
  let ?R = "{(i, j). is_max_run s i j}"
  have inj: "inj_on fst ?R"
    by (auto simp: inj_on_def dest: max_run_end_unique)
  have img: "fst ` ?R = {i. i < length s \<and> (\<exists>j. is_max_run s i j)}"
    by (auto simp: image_def is_max_run_def)
  have "card ?R = card (fst ` ?R)" using card_image [OF inj] by simp
  also have "\<dots> = card (set (filter (\<lambda>i. \<exists>j. is_max_run s i j) [0..<length s]))"
    unfolding img by (rule arg_cong [where f = card]) auto
  also have "\<dots> = length (filter (\<lambda>i. \<exists>j. is_max_run s i j) [0..<length s])"
    by (rule distinct_card) simp
  finally show ?thesis .
qed

text \<open>
  Claim C3. For every entry list, the period starts found by \<^verbatim>\<open>_get_period_starts\<close>
  are, in order, the dates at the first positions of the maximal consecutive runs of
  period days in the entries sorted by date; so the number of period starts is the
  number of such maximal runs.
\<close>

theorem period_starts_are_run_starts:
  "get_period_starts es =
     map (\<lambda>i. date (sort_key date es ! i))
       (filter (\<lambda>i. \<exists>j. is_max_run (sort_key date es) i j) [0..<length (sort_key date es)])
   \<and> length (get_period_starts es) = card {(i, j). is_max_run (sort_key date es) i j}"
proof -
  let ?s = "sort_key date es"
  have f: "filter (\<lambda>i. is_period_day (?s ! i) \<and> (if i = 0 then \<not> False else \<not> is_period_day (?s ! (i - 1))))
             [0..<length ?s]
         = filter (\<lambda>i. \<exists>j. is_max_run ?s i j) [0..<length ?s]"
    by (rule filter_cong [OF refl]) (auto simp: max_run_start_iff)
  have eq: "get_period_starts es =
     map (\<lambda>i. date (?s ! i)) (filter (\<lambda>i. \<exists>j. is_max_run ?s i j) [0..<length ?s])"
    unfolding get_period_starts_def period_starts_loop_index f ..
  show ?thesis
    by (rule conjI [OF eq]) (simp only: eq length_map max_run_card)
qed

text \<open>On the example entries the code finds the starts 1 and 30, so there are two runs.\<close>

theorem period_starts_are_run_starts_witness:
  "card {(i, j). is_max_run (sort_key date ex_entries) i j} = 2"
  using period_starts_are_run_starts [of ex_entries]
  by (simp add: get_period_starts_def ex_entries_def)


section \<open>Cycle statistics\<close>

text \<open>An addition that stays within the range of dates does not raise; one that passes it does.\<close>

lemma date_add_in_range:
  assumes "date_min \<le> d" "d \<le> date_max" "date_min \<le> d + n" "d + n \<le> date_max"
  shows "date_add d n = Some (d + n)"
  using assms unfolding date_add_def date_min_def date_max_def by auto

lemma date_add_past_max:
  assumes "date_max < d + n"
  shows "date_add d n = None"
  using assms by (simp add: date_add_def)

text \<open>With every entry dated before the last date, no period length raises.\<close>

lemma period_length_loop_total:
  assumes "\<forall>e \<in> set xs. date_min \<le> date e \<and> date e < date_max"
  shows "\<exists>n. period_length_loop s k c xs = Some n"
  using assms
proof (induction xs arbitrary: k c)
  case Nil
  show ?case by simp
next
  case (Cons e xs)
  have r: "\<forall>e \<in> set xs. date_min \<le> date e \<and> date e < date_max"
    using Cons.prems by simp
  have b: "date_min \<le> date e" "date e < date_max" using Cons.prems by simp_all
  have a: "date_add (date e) 1 = Some (date e + 1)"
    using b by (intro date_add_in_range) simp_all
  have ih: "\<And>k c. \<exists>n. period_length_loop s k c xs = Some n"
    using Cons.IH [OF r] .
  show ?case
  proof (cases "date e = c")
    case True
    then show ?thesis using a ih [of "k + 1" "c + 1"] ih [of k c] by auto
  next
    case False
    then show ?thesis using ih [of k c] by auto
  qed
qed

lemma calculate_period_length_total:
  assumes "entries_before_max es"
  shows "\<exists>r. calculate_period_length es s = Some r"
proof -
  have "\<forall>e \<in> set (sort_key date es). date_min \<le> date e \<and> date e < date_max"
    using assms by (simp add: entries_before_max_def)
  from period_length_loop_total [OF this, of s 0 s]
  show ?thesis by (auto simp: calculate_period_length_def)
qed

lemma period_lengths_of_total:
  assumes "entries_before_max es"
  shows "\<exists>pls. period_lengths_of es starts = Some pls"
proof (induction starts)
  case Nil
  show ?case by simp
next
  case (Cons a starts)
  from calculate_period_length_total [OF assms, of a]
  obtain r where "calculate_period_length es a = Some r" by blast
  then show ?case using Cons.IH by auto
qed

text \<open>Every period start is the date of an entry.\<close>

lemma period_starts_loop_dates: "set (period_starts_loop b xs) \<subseteq> date ` set xs"
  by (induction xs arbitrary: b) auto

lemma period_starts_dates: "set (get_period_starts es) \<subseteq> date ` set es"
  using period_starts_loop_dates [of False "sort_key date es"]
  by (simp add: get_period_starts_def)

lemma last_start_bounds:
  assumes "entries_before_max es" "get_period_starts es \<noteq> []"
  shows "date_min \<le> last (get_period_starts es) \<and> last (get_period_starts es) < date_max"
proof -
  have "last (get_period_starts es) \<in> set (get_period_starts es)"
    using assms(2) by simp
  then have "last (get_period_starts es) \<in> date ` set es"
    using period_starts_dates by blast
  then show ?thesis using assms(1) by (auto simp: entries_before_max_def)
qed

text \<open>A mean of values between two bounds lies between them; so the average cycle length lies in 21..35.\<close>

lemma sum_list_bounds:
  "(\<And>x. x \<in> set xs \<Longrightarrow> lo \<le> x \<and> x \<le> hi) \<Longrightarrow>
   lo * int (length xs) \<le> sum_list xs \<and> sum_list xs \<le> hi * int (length xs)"
  for lo hi :: int
proof (induction xs)
  case Nil
  show ?case by simp
next
  case (Cons a xs)
  have "lo \<le> a \<and> a \<le> hi" using Cons.prems by simp
  moreover have "lo * int (length xs) \<le> sum_list xs \<and> sum_list xs \<le> hi * int (length xs)"
    using Cons.IH Cons.prems by simp
  ultimately show ?case by (simp add: algebra_simps)
qed

lemma mean_or_bounds:
  assumes "\<And>x. x \<in> set xs \<Longrightarrow> lo \<le> x \<and> x \<le> hi" "lo \<le> d" "d \<le> hi"
  shows "of_int lo \<le> mean_or d xs \<and> mean_or d xs \<le> of_int hi"
proof (cases "xs = []")
  case True
  then show ?thesis using assms by (simp add: mean_or_def)
next
  case False
  then have pos: "(0::rat) < of_nat (length xs)" by simp
  have b: "lo * int (length xs) \<le> sum_list xs \<and> sum_list xs \<le> hi * int (length xs)"
    using sum_list_bounds [of xs lo hi] assms(1) by blast
  have "(of_int (lo * int (length xs)) :: rat) \<le> of_int (sum_list xs)"
    using b by (simp only: of_int_le_iff)
  then have lo: "(of_int lo :: rat) * of_nat (length xs) \<le> of_int (sum_list xs)" by simp
  have "(of_int (sum_list xs) :: rat) \<le> of_int (hi * int (length xs))"
    using b by (simp only: of_int_le_iff)
  then have hi: "(of_int (sum_list xs) :: rat) \<le> of_int hi * of_nat (length xs)" by simp
  show ?thesis using False lo hi pos
    by (simp add: mean_or_def pos_le_divide_eq pos_divide_le_eq)
qed

lemma avg_cycle_length_bounds:
  "21 \<le> mean_or 28 (valid_cycle_lengths ps) \<and> mean_or 28 (valid_cycle_lengths ps) \<le> 35"
  using mean_or_bounds [of "valid_cycle_lengths ps" 21 35 28]
  by (auto simp: valid_cycle_lengths_def)

lemma py_int_avg:
  "py_int (mean_or 28 (valid_cycle_lengths ps)) = \<lfloor>mean_or 28 (valid_cycle_lengths ps)\<rfloor>"
  "py_int (mean_or 28 (valid_cycle_lengths ps) - 14) = \<lfloor>mean_or 28 (valid_cycle_lengths ps)\<rfloor> - 14"
  using avg_cycle_length_bounds [of ps] by (auto simp: py_int_def)

lemma floor_avg_bounds:
  "21 \<le> \<lfloor>mean_or 28 (valid_cycle_lengths ps)\<rfloor> \<and> \<lfloor>mean_or 28 (valid_cycle_lengths ps)\<rfloor> \<le> 35"
  using avg_cycle_length_bounds [of ps] by (simp add: le_floor_iff floor_le_iff)

lemma predicted_next_period_eq:
  "predicted_next_period es =
     last (get_period_starts es) + \<lfloor>mean_or 28 (valid_cycle_lengths (get_period_starts es))\<rfloor>"
  by (simp add: predicted_next_period_def all_cycle_gaps_def valid_cycle_lengths_def)

text \<open>The two branches of \<^verbatim>\<open>calculate_cycle_stats\<close>, each with its result written out.\<close>

lemma stats_two_starts:
  assumes "2 \<le> length (get_period_starts es)"
    and "period_lengths_of es (get_period_starts es) = Some pls"
    and "date_min \<le> last (get_period_starts es)"
    and "predicted_next_period es \<le> date_max"
  shows "calculate_cycle_stats today es =
    Some \<lparr>average_cycle_length = Some (mean_or 28 (valid_cycle_lengths (get_period_starts es))),
          average_period_length = Some (mean_or 5 pls),
          last_period_start = Some (last (get_period_starts es)),
          next_predicted_period = Some (last (get_period_starts es)
             + \<lfloor>mean_or 28 (valid_cycle_lengths (get_period_starts es))\<rfloor>),
          next_predicted_ovulation = Some (last (get_period_starts es)
             + (\<lfloor>mean_or 28 (valid_cycle_lengths (get_period_starts es))\<rfloor> - 14)),
          current_cycle_day = Some (today - last (get_period_starts es) + 1),
          current_phase = Some (get_current_phase (today - last (get_period_starts es) + 1)
             (mean_or 28 (valid_cycle_lengths (get_period_starts es)))),
          total_cycles_tracked = int (length (get_period_starts es))\<rparr>"
proof -
  let ?ps = "get_period_starts es"
  let ?avg = "mean_or 28 (valid_cycle_lengths ?ps)"
  have ne: "?ps \<noteq> []" using assms(1) by auto
  have l: "\<not> length ?ps < 2" using assms(1) by simp
  have fb: "21 \<le> \<lfloor>?avg\<rfloor>" "\<lfloor>?avg\<rfloor> \<le> 35" using floor_avg_bounds [of ?ps] by simp_all
  have up: "last ?ps + \<lfloor>?avg\<rfloor> \<le> date_max"
    using assms(4) by (simp add: predicted_next_period_eq)
  have lm: "last ?ps \<le> date_max" using up fb by linarith
  have d1: "date_add (last ?ps) (py_int ?avg) = Some (last ?ps + \<lfloor>?avg\<rfloor>)"
    unfolding py_int_avg
    using assms(3) lm up fb by (intro date_add_in_range) linarith+
  have d2: "date_add (last ?ps) (py_int (?avg - 14)) = Some (last ?ps + (\<lfloor>?avg\<rfloor> - 14))"
    unfolding py_int_avg
    using assms(3) lm up fb by (intro date_add_in_range) linarith+
  have m1: "(if valid_cycle_lengths ?ps \<noteq> [] then statistics_mean (valid_cycle_lengths ?ps)
             else Some (of_int default_cycle_length)) = Some ?avg"
    by (simp add: statistics_mean_def mean_or_def default_cycle_length_def)
  have m2: "(if pls \<noteq> [] then statistics_mean pls
             else Some (of_int default_period_length)) = Some (mean_or 5 pls)"
    by (simp add: statistics_mean_def mean_or_def default_period_length_def)
  have d2': "date_add (last ?ps) (py_int (?avg - of_int luteal_phase_length))
      = Some (last ?ps + (\<lfloor>?avg\<rfloor> - 14))"
    using d2 by (simp add: luteal_phase_length_def)
  show ?thesis
    unfolding calculate_cycle_stats_def Let_def assms(2) option.case m1 m2
    using l ne by (simp add: d1 d2')
qed

lemma stats_next_period_overflow:
  assumes "2 \<le> length (get_period_starts es)"
    and "date_max < predicted_next_period es"
  shows "calculate_cycle_stats today es = None"
proof -
  let ?ps = "get_period_starts es"
  let ?avg = "mean_or 28 (valid_cycle_lengths ?ps)"
  have ne: "?ps \<noteq> []" using assms(1) by auto
  have l: "\<not> length ?ps < 2" using assms(1) by simp
  have d1: "date_add (last ?ps) (py_int ?avg) = None"
    unfolding py_int_avg
    using assms(2) by (intro date_add_past_max) (simp add: predicted_next_period_eq)
  have m1: "(if valid_cycle_lengths ?ps \<noteq> [] then statistics_mean (valid_cycle_lengths ?ps)
             else Some (of_int default_cycle_length)) = Some ?avg"
    by (simp add: statistics_mean_def mean_or_def default_cycle_length_def)
  show ?thesis
  proof (cases "period_lengths_of es ?ps")
    case None
    then show ?thesis unfolding calculate_cycle_stats_def Let_def using l by simp
  next
    case (Some pls)
    have m2: "(if pls \<noteq> [] then statistics_mean pls
             else Some (of_int default_period_length)) = Some (mean_or 5 pls)"
      by (simp add: statistics_mean_def mean_or_def default_period_length_def)
    show ?thesis
      unfolding calculate_cycle_stats_def Let_def Some option.case m1 m2
      using l ne by (simp add: d1)
  qed
qed

lemma stats_two_starts_fields:
  assumes "2 \<le> length (get_period_starts es)"
    and "calculate_cycle_stats today es = Some stats"
  shows "average_cycle_length stats = Some (mean_or 28 (valid_cycle_lengths (get_period_starts es)))"
    and "last_period_start stats = Some (last (get_period_starts es))"
proof -
  let ?ps = "get_period_starts es"
  let ?avg = "mean_or 28 (valid_cycle_lengths ?ps)"
  have ne: "?ps \<noteq> []" using assms(1) by auto
  have l: "\<not> length ?ps < 2" using assms(1) by simp
  have m1: "(if valid_cycle_lengths ?ps \<noteq> [] then statistics_mean (valid_cycle_lengths ?ps)
             else Some (of_int default_cycle_length)) = Some ?avg"
    by (simp add: statistics_mean_def mean_or_def default_cycle_length_def)
  obtain pls where p: "period_lengths_of es ?ps = Some pls"
    using assms(2) l unfolding calculate_cycle_stats_def Let_def
    by (cases "period_lengths_of es ?ps") simp_all
  have m2: "(if pls \<noteq> [] then statistics_mean pls
             else Some (of_int default_period_length)) = Some (mean_or 5 pls)"
    by (simp add: statistics_mean_def mean_or_def default_period_length_def)
  have "average_cycle_length stats = Some ?avg \<and> last_period_start stats = Some (last ?ps)"
    using assms(2) l ne
    unfolding calculate_cycle_stats_def Let_def p option.case m1 m2
    by (auto split: option.splits)
  then show "average_cycle_length stats = Some ?avg"
    and "last_period_start stats = Some (last ?ps)" by simp_all
qed

lemma stats_few_starts:
  assumes "length (get_period_starts es) < 2"
  shows "calculate_cycle_stats today es =
    Some \<lparr>average_cycle_length = None, average_period_length = None,
          last_period_start =
            (if length (get_period_starts es) = 1 then Some (hd (get_period_starts es)) else None),
          next_predicted_period = None, next_predicted_ovulation = None,
          current_cycle_day = None, current_phase = None,
          total_cycles_tracked = int (length (get_period_starts es))\<rparr>"
proof (cases "get_period_starts es")
  case Nil
  then show ?thesis by (simp add: calculate_cycle_stats_def)
next
  case (Cons a rest)
  with assms have "rest = []" by simp
  with Cons show ?thesis by (simp add: calculate_cycle_stats_def)
qed

lemma stats_cycle_length_bounds:
  assumes "calculate_cycle_stats today es = Some stats"
  shows "21 \<le> cycle_length_of stats \<and> cycle_length_of stats \<le> 35"
proof (cases "length (get_period_starts es) < 2")
  case True
  from stats_few_starts [OF this, of today] assms
  have "average_cycle_length stats = None" by auto
  then show ?thesis by (simp add: cycle_length_of_def)
next
  case False
  then have "2 \<le> length (get_period_starts es)" by simp
  from stats_two_starts_fields(1) [OF this assms]
  show ?thesis using avg_cycle_length_bounds [of "get_period_starts es"]
    by (simp add: cycle_length_of_def)
qed

lemma floor_examples:
  "\<lfloor>57 / 2 :: rat\<rfloor> = 28" "\<lfloor>29 / 2 :: rat\<rfloor> = 14"
  by (rule floor_unique; simp)+

text \<open>The example lists: their period starts, period lengths and range.\<close>

lemma frac_facts:
  "get_period_starts frac_entries = [1, 29, 58]"
  "valid_cycle_lengths [1, 29, 58] = [28, 29]"
  "period_lengths_of frac_entries [1, 29, 58] = Some [1, 1, 1]"
  "entries_before_max frac_entries"
  "predicted_next_period frac_entries = 86"
proof -
  show ps: "get_period_starts frac_entries = [1, 29, 58]"
    by (simp add: get_period_starts_def frac_entries_def)
  show v: "valid_cycle_lengths [1, 29, 58] = [28, 29]"
    unfolding valid_cycle_lengths_def by code_simp
  show "period_lengths_of frac_entries [1, 29, 58] = Some [1, 1, 1]"
    by (simp add: calculate_period_length_def frac_entries_def date_add_def
        date_min_def date_max_def)
  show "entries_before_max frac_entries"
    by (simp add: entries_before_max_def frac_entries_def date_min_def date_max_def)
  show "predicted_next_period frac_entries = 86"
    unfolding predicted_next_period_eq ps v by (simp add: mean_or_def floor_examples)
qed

lemma frac_stats:
  "calculate_cycle_stats t frac_entries =
     Some \<lparr>average_cycle_length = Some (57 / 2), average_period_length = Some 1,
           last_period_start = Some 58, next_predicted_period = Some 86,
           next_predicted_ovulation = Some 72, current_cycle_day = Some (t - 58 + 1),
           current_phase = Some (get_current_phase (t - 58 + 1) (57 / 2)),
           total_cycles_tracked = 3\<rparr>"
proof -
  have h: "2 \<le> length (get_period_starts frac_entries)" by (simp add: frac_facts(1))
  have p: "period_lengths_of frac_entries (get_period_starts frac_entries) = Some [1, 1, 1]"
    by (simp only: frac_facts(1) frac_facts(3))
  have lo: "date_min \<le> last (get_period_starts frac_entries)"
    by (simp add: frac_facts(1) date_min_def)
  have up: "predicted_next_period frac_entries \<le> date_max"
    by (simp add: frac_facts(5) date_max_def)
  show ?thesis
    unfolding stats_two_starts [OF h p lo up] frac_facts(1) frac_facts(2)
    by (simp add: mean_or_def floor_examples)
qed

lemma jan_facts:
  "get_period_starts jan_entries = [738886, 738914]"
  "valid_cycle_lengths [738886, 738914] = [28]"
  "entries_before_max jan_entries"
  "predicted_next_period jan_entries = 738942"
proof -
  show ps: "get_period_starts jan_entries = [738886, 738914]"
    by (simp add: get_period_starts_def jan_entries_def date_ordinal_def)
  show v: "valid_cycle_lengths [738886, 738914] = [28]"
    unfolding valid_cycle_lengths_def by code_simp
  show "entries_before_max jan_entries"
    by (simp add: entries_before_max_def jan_entries_def date_ordinal_def
        date_min_def date_max_def)
  show "predicted_next_period jan_entries = 738942"
    unfolding predicted_next_period_eq ps v by (simp add: mean_or_def)
qed

lemma near_max_facts:
  "get_period_starts near_max_entries = [3652018, 3652046]"
  "valid_cycle_lengths [3652018, 3652046] = [28]"
  "predicted_next_period near_max_entries = 3652074"
  "entries_before_max near_max_entries"
proof -
  show ps: "get_period_starts near_max_entries = [3652018, 3652046]"
    by (simp add: get_period_starts_def near_max_entries_def date_ordinal_def)
  show v: "valid_cycle_lengths [3652018, 3652046] = [28]"
    unfolding valid_cycle_lengths_def by code_simp
  show "predicted_next_period near_max_entries = 3652074"
    unfolding predicted_next_period_eq ps v by (simp add: mean_or_def)
  show "entries_before_max near_max_entries"
    by (simp add: entries_before_max_def near_max_entries_def date_ordinal_def
        date_min_def date_max_def)
qed

text \<open>
  Claim C7. For every entry list with fewer than two period starts,
  \<^verbatim>\<open>calculate_cycle_stats\<close> returns (it does not raise) a statistics object whose
  \<^verbatim>\<open>total_cycles_tracked\<close> is the number of period starts, whose
  \<^verbatim>\<open>last_period_start\<close> is the single start when there is exactly one and null
  otherwise, and whose other fields are all null.
\<close>

theorem few_starts_degenerate_stats:
  assumes "length (get_period_starts es) < 2"
  shows "calculate_cycle_stats today es =
    Some \<lparr>average_cycle_length = None, average_period_length = None,
          last_period_start =
            (if length (get_period_starts es) = 1 then Some (hd (get_period_starts es)) else None),
          next_predicted_period = None, next_predicted_ovulation = None,
          current_cycle_day = None, current_phase = None,
          total_cycles_tracked = int (length (get_period_starts es))\<rparr>"
  using assms by (rule stats_few_starts)

text \<open>With the single period start on day 5: one cycle tracked, last start 5, all else null.\<close>

theorem few_starts_degenerate_stats_witness:
  "length (get_period_starts one_start_entries) < 2
   \<and> calculate_cycle_stats 10 one_start_entries =
       Some \<lparr>average_cycle_length = None, average_period_length = None,
             last_period_start = Some 5,
             next_predicted_period = None, next_predicted_ovulation = None,
             current_cycle_day = None, current_phase = None,
             total_cycles_tracked = 1\<rparr>"
proof -
  have ps: "get_period_starts one_start_entries = [5]"
    by (simp add: get_period_starts_def one_start_entries_def)
  have h: "length (get_period_starts one_start_entries) < 2" by (simp add: ps)
  show ?thesis using h few_starts_degenerate_stats [OF h, of 10] by (simp add: ps)
qed

text \<open>
  Claim C4, as the code has it. For every entry list with at least two period starts,
  all of whose entries are dated before 9999-12-31 and whose predicted next period
  (the last period start plus the whole days of the average cycle length) is not after
  9999-12-31, \<^verbatim>\<open>calculate_cycle_stats\<close> returns a statistics object in which every gap
  between consecutive period starts counts towards \<^verbatim>\<open>total_cycles_tracked\<close>,
  plausible or not: the total is one more than the number of all gaps (it is the number
  of period starts). Only the gaps of 21 to 35 days enter \<^verbatim>\<open>average_cycle_length\<close>,
  which is their arithmetic mean, and 28 when there is no such gap.
\<close>

theorem cycles_tracked_and_average:
  assumes "2 \<le> length (get_period_starts es)"
    and "entries_before_max es"
    and "predicted_next_period es \<le> date_max"
  shows "\<exists>stats. calculate_cycle_stats today es = Some stats
     \<and> total_cycles_tracked stats = 1 + int (length (all_cycle_gaps (get_period_starts es)))
     \<and> average_cycle_length stats =
         Some (mean_or 28 (filter (\<lambda>g. 21 \<le> g \<and> g \<le> 35) (all_cycle_gaps (get_period_starts es))))"
proof -
  have len: "1 + int (length (all_cycle_gaps (get_period_starts es)))
      = int (length (get_period_starts es))"
    using assms(1) by (simp add: all_cycle_gaps_def)
  have v: "filter (\<lambda>g. 21 \<le> g \<and> g \<le> 35) (all_cycle_gaps (get_period_starts es))
      = valid_cycle_lengths (get_period_starts es)"
    by (simp add: all_cycle_gaps_def valid_cycle_lengths_def)
  obtain pls where p: "period_lengths_of es (get_period_starts es) = Some pls"
    using period_lengths_of_total [OF assms(2)] by blast
  have ne: "get_period_starts es \<noteq> []" using assms(1) by auto
  have lo: "date_min \<le> last (get_period_starts es)"
    using last_start_bounds [OF assms(2) ne] by simp
  show ?thesis
    unfolding len v using stats_two_starts [OF assms(1) p lo assms(3), of today] by simp
qed

text \<open>
  With gaps of 28 and 40 days: three cycles tracked (the 40-day gap counts), and the
  average is 28 (the 40-day gap does not enter it).
\<close>

theorem cycles_tracked_and_average_witness:
  "2 \<le> length (get_period_starts gap40_entries)
   \<and> entries_before_max gap40_entries
   \<and> predicted_next_period gap40_entries \<le> date_max
   \<and> all_cycle_gaps (get_period_starts gap40_entries) = [28, 40]
   \<and> (\<exists>stats. calculate_cycle_stats 100 gap40_entries = Some stats
        \<and> total_cycles_tracked stats = 3 \<and> average_cycle_length stats = Some 28)"
proof -
  have ps: "get_period_starts gap40_entries = [1, 29, 69]"
    by (simp add: get_period_starts_def gap40_entries_def)
  have h: "2 \<le> length (get_period_starts gap40_entries)" by (simp add: ps)
  have g': "all_cycle_gaps [1, 29, 69] = [28, 40]"
    unfolding all_cycle_gaps_def by code_simp
  have g: "all_cycle_gaps (get_period_starts gap40_entries) = [28, 40]"
    unfolding ps by (rule g')
  have b: "entries_before_max gap40_entries"
    by (simp add: entries_before_max_def gap40_entries_def date_min_def date_max_def)
  have n: "predicted_next_period gap40_entries \<le> date_max"
    unfolding predicted_next_period_def ps g' by (simp add: mean_or_def date_max_def)
  from cycles_tracked_and_average [OF h b n, of 100] show ?thesis
    unfolding g using h b n by (simp add: mean_or_def)
qed

text \<open>
  Claim C4 as stated fails near the end of the range of dates. With period starts on
  9999-11-20 and 9999-12-18, one gap of 28 days, the next period would be predicted
  after 9999-12-31: the addition to the last period start raises, and no statistics are
  returned.
\<close>

theorem stats_raise_near_date_max_counterexample:
  "get_period_starts near_max_entries = [date_ordinal 9999 11 20, date_ordinal 9999 12 18]
   \<and> all_cycle_gaps (get_period_starts near_max_entries) = [28]
   \<and> date_max = date_ordinal 9999 12 31
   \<and> calculate_cycle_stats (date_ordinal 9999 12 19) near_max_entries = None"
proof -
  have h: "2 \<le> length (get_period_starts near_max_entries)" by (simp add: near_max_facts(1))
  have o: "date_max < predicted_next_period near_max_entries"
    by (simp add: near_max_facts(3) date_max_def)
  have g: "all_cycle_gaps [3652018, 3652046] = [28]"
    unfolding all_cycle_gaps_def by code_simp
  have d: "date_ordinal 9999 11 20 = 3652018" "date_ordinal 9999 12 18 = 3652046"
    "date_ordinal 9999 12 31 = 3652059"
    by (simp_all add: date_ordinal_def)
  show ?thesis
    using stats_next_period_overflow [OF h o, of "date_ordinal 9999 12 19"]
    by (simp add: near_max_facts(1) g d date_max_def)
qed

text \<open>
  Claim C5, as the code has it. For every entry list with at least two period starts,
  all of whose entries are dated before 9999-12-31 and whose predicted next period is
  not after 9999-12-31, against a reference date \<open>today\<close>: the next predicted period is
  the last period start plus the average cycle length truncated to whole days; the next
  predicted ovulation is the last period start plus (average cycle length - 14)
  truncated to whole days; the current cycle day is (today - last period start) + 1,
  not wrapped. When the predicted next period is after 9999-12-31, the code raises and
  returns no statistics. For period starts on 2024-01-01 and 2024-01-29 the average is
  28, the last start is 2024-01-29 and the next predicted period is 2024-02-26; there
  the current cycle day is 0 on 2024-01-28, negative on 2024-01-01 and 61, more than
  the average, on 2024-03-29.
\<close>

theorem stats_predictions_truncated:
  "(2 \<le> length (get_period_starts es) \<longrightarrow> entries_before_max es \<longrightarrow>
    predicted_next_period es \<le> date_max \<longrightarrow>
      (\<exists>stats avg. calculate_cycle_stats today es = Some stats
         \<and> average_cycle_length stats = Some avg
         \<and> last_period_start stats = Some (last (get_period_starts es))
         \<and> next_predicted_period stats = Some (last (get_period_starts es) + \<lfloor>avg\<rfloor>)
         \<and> next_predicted_ovulation stats = Some (last (get_period_starts es) + \<lfloor>avg - 14\<rfloor>)
         \<and> current_cycle_day stats = Some ((today - last (get_period_starts es)) + 1)))
   \<and> (2 \<le> length (get_period_starts es) \<longrightarrow> date_max < predicted_next_period es \<longrightarrow>
        calculate_cycle_stats today es = None)
   \<and> get_period_starts jan_entries = [date_ordinal 2024 1 1, date_ordinal 2024 1 29]
   \<and> (\<exists>stats. calculate_cycle_stats today jan_entries = Some stats
         \<and> average_cycle_length stats = Some 28
         \<and> last_period_start stats = Some (date_ordinal 2024 1 29)
         \<and> next_predicted_period stats = Some (date_ordinal 2024 2 26))
   \<and> (\<exists>stats. calculate_cycle_stats (date_ordinal 2024 1 28) jan_entries = Some stats
         \<and> current_cycle_day stats = Some 0)
   \<and> (\<exists>stats. calculate_cycle_stats (date_ordinal 2024 1 1) jan_entries = Some stats
         \<and> current_cycle_day stats = Some (- 27))
   \<and> (\<exists>stats. calculate_cycle_stats (date_ordinal 2024 3 29) jan_entries = Some stats
         \<and> current_cycle_day stats = Some 61 \<and> average_cycle_length stats = Some 28)"
proof -
  have gen: "2 \<le> length (get_period_starts es) \<longrightarrow> entries_before_max es \<longrightarrow>
    predicted_next_period es \<le> date_max \<longrightarrow>
      (\<exists>stats avg. calculate_cycle_stats today es = Some stats
         \<and> average_cycle_length stats = Some avg
         \<and> last_period_start stats = Some (last (get_period_starts es))
         \<and> next_predicted_period stats = Some (last (get_period_starts es) + \<lfloor>avg\<rfloor>)
         \<and> next_predicted_ovulation stats = Some (last (get_period_starts es) + \<lfloor>avg - 14\<rfloor>)
         \<and> current_cycle_day stats = Some ((today - last (get_period_starts es)) + 1))"
  proof (intro impI)
    assume h: "2 \<le> length (get_period_starts es)" and b: "entries_before_max es"
      and n: "predicted_next_period es \<le> date_max"
    obtain pls where p: "period_lengths_of es (get_period_starts es) = Some pls"
      using period_lengths_of_total [OF b] by blast
    have ne: "get_period_starts es \<noteq> []" using h by auto
    have lo: "date_min \<le> last (get_period_starts es)"
      using last_start_bounds [OF b ne] by simp
    show "\<exists>stats avg. calculate_cycle_stats today es = Some stats
         \<and> average_cycle_length stats = Some avg
         \<and> last_period_start stats = Some (last (get_period_starts es))
         \<and> next_predicted_period stats = Some (last (get_period_starts es) + \<lfloor>avg\<rfloor>)
         \<and> next_predicted_ovulation stats = Some (last (get_period_starts es) + \<lfloor>avg - 14\<rfloor>)
         \<and> current_cycle_day stats = Some ((today - last (get_period_starts es)) + 1)"
      using stats_two_starts [OF h p lo n, of today] by simp
  qed
  have over: "2 \<le> length (get_period_starts es) \<longrightarrow> date_max < predicted_next_period es \<longrightarrow>
        calculate_cycle_stats today es = None"
    using stats_next_period_overflow by blast
  have d: "date_ordinal 2024 1 1 = 738886" "date_ordinal 2024 1 29 = 738914"
    "date_ordinal 2024 2 26 = 738942" "date_ordinal 2024 1 28 = 738913"
    "date_ordinal 2024 3 29 = 738974"
    by (simp_all add: date_ordinal_def)
  have two: "2 \<le> length (get_period_starts jan_entries)" by (simp add: jan_facts(1))
  obtain pls where p: "period_lengths_of jan_entries (get_period_starts jan_entries) = Some pls"
    using period_lengths_of_total [OF jan_facts(3)] by blast
  have lo: "date_min \<le> last (get_period_starts jan_entries)"
    by (simp add: jan_facts(1) date_min_def)
  have up: "predicted_next_period jan_entries \<le> date_max"
    by (simp add: jan_facts(4) date_max_def)
  have st: "\<And>t. \<exists>stats. calculate_cycle_stats t jan_entries = Some stats
         \<and> average_cycle_length stats = Some 28
         \<and> last_period_start stats = Some 738914
         \<and> next_predicted_period stats = Some 738942
         \<and> current_cycle_day stats = Some (t - 738914 + 1)"
    using stats_two_starts [OF two p lo up] unfolding jan_facts(1) jan_facts(2)
    by (simp add: mean_or_def)
  show ?thesis
    apply (intro conjI)
    subgoal by (rule gen)
    subgoal by (rule over)
    subgoal by (simp add: jan_facts(1) d)
    subgoal using st [of today] by (auto simp: d)
    subgoal using st [of 738913] by (auto simp: d)
    subgoal using st [of 738886] by (auto simp: d)
    subgoal using st [of 738974] by (auto simp: d)
    done
qed

text \<open>
  With gaps of 28 and 29 days the average is 28.5: the next period is predicted 28
  days, and the next ovulation 14 days, after the last start on day 58. With the starts
  on 9999-11-20 and 9999-12-18 the next period would fall after 9999-12-31, and no
  statistics are returned.
\<close>

theorem stats_predictions_truncated_witness:
  "2 \<le> length (get_period_starts frac_entries)
   \<and> entries_before_max frac_entries
   \<and> predicted_next_period frac_entries \<le> date_max
   \<and> (\<exists>stats. calculate_cycle_stats 101 frac_entries = Some stats
         \<and> average_cycle_length stats = Some (57 / 2)
         \<and> last_period_start stats = Some 58
         \<and> next_predicted_period stats = Some 86
         \<and> next_predicted_ovulation stats = Some 72
         \<and> current_cycle_day stats = Some 44)
   \<and> 2 \<le> length (get_period_starts near_max_entries)
   \<and> date_max < predicted_next_period near_max_entries
   \<and> calculate_cycle_stats 101 near_max_entries = None"
proof -
  have h: "2 \<le> length (get_period_starts frac_entries)" by (simp add: frac_facts(1))
  have b: "entries_before_max frac_entries" by (rule frac_facts(4))
  have n: "predicted_next_period frac_entries \<le> date_max"
    by (simp add: frac_facts(5) date_max_def)
  have avg: "average_cycle_length (the (calculate_cycle_stats 101 frac_entries)) = Some (57 / 2)"
    by (simp add: frac_stats)
  from stats_predictions_truncated [of frac_entries 101, THEN conjunct1, rule_format, OF h b n]
  obtain stats a where s: "calculate_cycle_stats 101 frac_entries = Some stats"
    "average_cycle_length stats = Some a"
    "last_period_start stats = Some (last (get_period_starts frac_entries))"
    "next_predicted_period stats = Some (last (get_period_starts frac_entries) + \<lfloor>a\<rfloor>)"
    "next_predicted_ovulation stats = Some (last (get_period_starts frac_entries) + \<lfloor>a - 14\<rfloor>)"
    "current_cycle_day stats = Some ((101 - last (get_period_starts frac_entries)) + 1)"
    by blast
  have a: "a = 57 / 2" using avg s(1) s(2) by simp
  have h2: "2 \<le> length (get_period_starts near_max_entries)"
    by (simp add: near_max_facts(1))
  have o: "date_max < predicted_next_period near_max_entries"
    by (simp add: near_max_facts(3) date_max_def)
  have r: "calculate_cycle_stats 101 near_max_entries = None"
    using stats_predictions_truncated [of near_max_entries 101, THEN conjunct2, THEN conjunct1]
      h2 o by blast
  have f: "\<exists>stats. calculate_cycle_stats 101 frac_entries = Some stats
         \<and> average_cycle_length stats = Some (57 / 2)
         \<and> last_period_start stats = Some 58
         \<and> next_predicted_period stats = Some 86
         \<and> next_predicted_ovulation stats = Some 72
         \<and> current_cycle_day stats = Some 44"
    using s unfolding a frac_facts(1) by (simp add: floor_examples)
  show ?thesis by (intro conjI h b n f h2 o r)
qed

text \<open>
  Claim C5 as stated fails there: the last start plus the average is day 86.5, and the
  last start plus (average - 14) is day 72.5, neither of which the code returns.
\<close>

theorem next_period_not_fractional_counterexample:
  "calculate_cycle_stats 101 frac_entries =
     Some \<lparr>average_cycle_length = Some (57 / 2), average_period_length = Some 1,
           last_period_start = Some 58, next_predicted_period = Some 86,
           next_predicted_ovulation = Some 72, current_cycle_day = Some 44,
           current_phase = Some ''luteal'', total_cycles_tracked = 3\<rparr>
   \<and> (of_int 86 :: rat) \<noteq> of_int 58 + 57 / 2
   \<and> (of_int 72 :: rat) \<noteq> of_int 58 + (57 / 2 - 14)"
  unfolding frac_stats
  by (simp add: get_current_phase_def luteal_phase_length_def)

section \<open>Predictions\<close>

text \<open>
  The loop over offsets whose dates stay in range returns one prediction per offset;
  an offset whose date is out of range makes it raise.
\<close>

lemma predictions_loop_in_range:
  assumes "py_int cl = \<lfloor>cl\<rfloor>" "\<lfloor>cl\<rfloor> \<noteq> 0"
    and "\<forall>i \<in> set offs. date_add today (int i) = Some (today + int i)"
  shows "predictions_loop today lps cl offs = Some (map (prediction_at today lps cl) offs)"
  using assms(3)
proof (induction offs)
  case Nil
  show ?case by simp
next
  case (Cons i offs)
  have d: "date_add today (int i) = Some (today + int i)" using Cons.prems by simp
  have r: "predictions_loop today lps cl offs = Some (map (prediction_at today lps cl) offs)"
    using Cons.IH Cons.prems by simp
  show ?case using assms(1) assms(2) by (simp add: d r prediction_at_def Let_def)
qed

lemma predictions_loop_overflow:
  assumes "i \<in> set offs" "date_add today (int i) = None"
  shows "predictions_loop today lps cl offs = None"
  using assms(1)
proof (induction offs)
  case Nil
  then show ?case by simp
next
  case (Cons j offs)
  show ?case
  proof (cases "j = i")
    case True
    then show ?thesis using assms(2) by simp
  next
    case False
    then have "predictions_loop today lps cl offs = None" using Cons by simp
    then show ?thesis by (simp add: Let_def split: option.splits)
  qed
qed

lemma offsets_in_range:
  assumes "valid_date today" "today + n - 1 \<le> date_max"
  shows "\<forall>i \<in> set [0..<nat n]. date_add today (int i) = Some (today + int i)"
proof
  fix i assume "i \<in> set [0..<nat n]"
  then have "int i < n" by auto
  then have "today + int i \<le> date_max" using assms(2) by linarith
  moreover have "date_min \<le> today" "today \<le> date_max"
    using assms(1) by (simp_all add: valid_date_def)
  ultimately show "date_add today (int i) = Some (today + int i)"
    by (intro date_add_in_range) linarith+
qed

text \<open>
  With statistics that carry a last period start, the generator returns one prediction
  per offset; the modulus is at least 21, so no division by zero is raised.
\<close>

lemma generate_cycle_length:
  assumes "calculate_cycle_stats today es = Some stats"
  shows "(case average_cycle_length stats of
               None \<Rightarrow> of_int default_cycle_length
             | Some a \<Rightarrow> if a = 0 then of_int default_cycle_length else a) = cycle_length_of stats"
    and "py_int (cycle_length_of stats) = \<lfloor>cycle_length_of stats\<rfloor>"
    and "21 \<le> \<lfloor>cycle_length_of stats\<rfloor>"
proof -
  let ?cl = "cycle_length_of stats"
  have b: "21 \<le> ?cl" using stats_cycle_length_bounds [OF assms] by simp
  show "21 \<le> \<lfloor>?cl\<rfloor>" using b by (simp add: le_floor_iff)
  show "py_int ?cl = \<lfloor>?cl\<rfloor>" using b by (simp add: py_int_def)
  show "(case average_cycle_length stats of
               None \<Rightarrow> of_int default_cycle_length
             | Some a \<Rightarrow> if a = 0 then of_int default_cycle_length else a) = ?cl"
    using b by (auto simp: cycle_length_of_def default_cycle_length_def split: option.splits)
qed

lemma generate_from_stats:
  assumes "calculate_cycle_stats today es = Some stats"
    and "last_period_start stats = Some lps"
    and "valid_date today" "today + n - 1 \<le> date_max"
  shows "generate_predictions today es n =
     Some (map (prediction_at today lps (cycle_length_of stats)) [0..<nat n])"
proof -
  let ?cl = "cycle_length_of stats"
  have nz: "\<lfloor>?cl\<rfloor> \<noteq> 0" using generate_cycle_length(3) [OF assms(1)] by linarith
  have "generate_predictions today es n = predictions_loop today lps ?cl [0..<nat n]"
    unfolding generate_predictions_def assms(1) assms(2) option.case Let_def
      generate_cycle_length(1) [OF assms(1)] ..
  also have "\<dots> = Some (map (prediction_at today lps ?cl) [0..<nat n])"
    using generate_cycle_length(2) [OF assms(1)] nz offsets_in_range [OF assms(3) assms(4)]
    by (rule predictions_loop_in_range)
  finally show ?thesis .
qed

lemma generate_overflow:
  assumes "calculate_cycle_stats today es = Some stats"
    and "last_period_start stats = Some lps"
    and "i \<in> set [0..<nat n]" "date_add today (int i) = None"
  shows "generate_predictions today es n = None"
  unfolding generate_predictions_def assms(1) assms(2) option.case Let_def
  using assms(3) assms(4) by (rule predictions_loop_overflow)

lemma generate_no_start:
  assumes "calculate_cycle_stats today es = Some stats" "last_period_start stats = None"
  shows "generate_predictions today es n = Some []"
  unfolding generate_predictions_def using assms by simp

lemma prediction_at_fields:
  assumes "21 \<le> cl"
  shows "date_cp (prediction_at today lps cl i) = today + int i"
    and "cycle_day (prediction_at today lps cl i) = (today + int i - lps) mod \<lfloor>cl\<rfloor> + 1"
    and "1 \<le> cycle_day (prediction_at today lps cl i)"
    and "cycle_day (prediction_at today lps cl i) \<le> \<lfloor>cl\<rfloor>"
    and "of_int (cycle_day (prediction_at today lps cl i)) \<le> cl"
proof -
  have fl: "0 < \<lfloor>cl\<rfloor>" using assms by (simp add: less_floor_iff)
  show "date_cp (prediction_at today lps cl i) = today + int i"
    by (simp add: prediction_at_def Let_def)
  show cd: "cycle_day (prediction_at today lps cl i) = (today + int i - lps) mod \<lfloor>cl\<rfloor> + 1"
    by (simp add: prediction_at_def Let_def)
  show "1 \<le> cycle_day (prediction_at today lps cl i)"
    unfolding cd using pos_mod_sign [OF fl, of "today + int i - lps"] by simp
  show up: "cycle_day (prediction_at today lps cl i) \<le> \<lfloor>cl\<rfloor>"
    unfolding cd using pos_mod_bound [OF fl, of "today + int i - lps"] by simp
  then have "(of_int (cycle_day (prediction_at today lps cl i)) :: rat) \<le> of_int \<lfloor>cl\<rfloor>"
    by (simp only: of_int_le_iff)
  then show "of_int (cycle_day (prediction_at today lps cl i)) \<le> cl"
    using of_int_floor_le [of cl] by (rule order_trans)
qed

text \<open>The first prediction for gaps of 28 and 29 days, thirty days after the last start.\<close>

lemma frac_prediction:
  "generate_predictions 88 frac_entries 1 =
     Some [\<lparr>date_cp = 88, cycle_day = 3, phase = ''menstrual'',
            predicted_symptoms = [''cramps'', ''bloating'', ''back_pain''],
            hormone_levels = \<lparr>estrogen_level = ''low'', progesterone_level = ''low'',
                               testosterone_level = ''medium''\<rparr>,
            fertility_status = ''low''\<rparr>]"
proof -
  have v: "valid_date 88" by (simp add: valid_date_def date_min_def date_max_def)
  have u: "88 + 1 - 1 \<le> date_max" by (simp add: date_max_def)
  have l: "last_period_start \<lparr>average_cycle_length = Some (57 / 2), average_period_length = Some 1,
           last_period_start = Some 58, next_predicted_period = Some 86,
           next_predicted_ovulation = Some 72, current_cycle_day = Some (88 - 58 + 1),
           current_phase = Some (get_current_phase (88 - 58 + 1) (57 / 2)),
           total_cycles_tracked = 3\<rparr> = Some 58" by simp
  show ?thesis
    unfolding generate_from_stats [OF frac_stats [of 88] l v u]
    by (simp add: cycle_length_of_def prediction_at_def floor_examples
        get_current_phase_def predict_symptoms_def predict_hormone_levels_def
        predict_fertility_def luteal_phase_length_def)
qed

text \<open>
  Claim C6, as the code has it. For every entry list for which the statistics are
  returned: when they carry no last period start, \<^verbatim>\<open>generate_predictions\<close> returns the
  empty list. When they carry one, then for every \<^verbatim>\<open>days_ahead\<close> of at least 0 such
  that the last prediction date, today + \<^verbatim>\<open>days_ahead\<close> - 1, is not after 9999-12-31
  (today being a calendar date), it returns exactly \<^verbatim>\<open>days_ahead\<close> predictions; the
  prediction at offset \<open>i\<close> has the date today + \<open>i\<close> and the cycle day ((prediction
  date - last period start) mod the cycle length truncated to whole days) + 1, so that
  every cycle day lies between 1 and the truncated cycle length (hence between 1 and the
  cycle length).
\<close>

theorem predictions_wrapped:
  assumes "calculate_cycle_stats today es = Some stats"
  shows "(last_period_start stats = None \<longrightarrow> generate_predictions today es days_ahead = Some [])
     \<and> (\<forall>lps. last_period_start stats = Some lps \<longrightarrow> 0 \<le> days_ahead \<longrightarrow>
          valid_date today \<longrightarrow> today + days_ahead - 1 \<le> date_max \<longrightarrow>
          (\<exists>preds. generate_predictions today es days_ahead = Some preds
             \<and> int (length preds) = days_ahead
             \<and> (\<forall>i < length preds.
                  date_cp (preds ! i) = today + int i
                  \<and> cycle_day (preds ! i)
                      = ((today + int i - lps) mod \<lfloor>cycle_length_of stats\<rfloor>) + 1
                  \<and> 1 \<le> cycle_day (preds ! i)
                  \<and> cycle_day (preds ! i) \<le> \<lfloor>cycle_length_of stats\<rfloor>
                  \<and> of_int (cycle_day (preds ! i)) \<le> cycle_length_of stats)))"
proof -
  note st = assms
  have b: "21 \<le> cycle_length_of stats" using stats_cycle_length_bounds [OF st] by simp
  have none: "last_period_start stats = None \<longrightarrow>
      generate_predictions today es days_ahead = Some []"
    using generate_no_start [OF st] by blast
  have some: "\<forall>lps. last_period_start stats = Some lps \<longrightarrow> 0 \<le> days_ahead \<longrightarrow>
          valid_date today \<longrightarrow> today + days_ahead - 1 \<le> date_max \<longrightarrow>
          (\<exists>preds. generate_predictions today es days_ahead = Some preds
             \<and> int (length preds) = days_ahead
             \<and> (\<forall>i < length preds.
                  date_cp (preds ! i) = today + int i
                  \<and> cycle_day (preds ! i)
                      = ((today + int i - lps) mod \<lfloor>cycle_length_of stats\<rfloor>) + 1
                  \<and> 1 \<le> cycle_day (preds ! i)
                  \<and> cycle_day (preds ! i) \<le> \<lfloor>cycle_length_of stats\<rfloor>
                  \<and> of_int (cycle_day (preds ! i)) \<le> cycle_length_of stats))"
  proof (intro allI impI)
    fix lps assume l: "last_period_start stats = Some lps" and d: "0 \<le> days_ahead"
      and v: "valid_date today" and u: "today + days_ahead - 1 \<le> date_max"
    let ?preds = "map (prediction_at today lps (cycle_length_of stats)) [0..<nat days_ahead]"
    have g: "generate_predictions today es days_ahead = Some ?preds"
      by (rule generate_from_stats [OF st l v u])
    have len: "int (length ?preds) = days_ahead" using d by simp
    have each: "\<forall>i < length ?preds.
                  date_cp (?preds ! i) = today + int i
                  \<and> cycle_day (?preds ! i)
                      = ((today + int i - lps) mod \<lfloor>cycle_length_of stats\<rfloor>) + 1
                  \<and> 1 \<le> cycle_day (?preds ! i)
                  \<and> cycle_day (?preds ! i) \<le> \<lfloor>cycle_length_of stats\<rfloor>
                  \<and> of_int (cycle_day (?preds ! i)) \<le> cycle_length_of stats"
      using prediction_at_fields [OF b] by simp
    show "\<exists>preds. generate_predictions today es days_ahead = Some preds
             \<and> int (length preds) = days_ahead
             \<and> (\<forall>i < length preds.
                  date_cp (preds ! i) = today + int i
                  \<and> cycle_day (preds ! i)
                      = ((today + int i - lps) mod \<lfloor>cycle_length_of stats\<rfloor>) + 1
                  \<and> 1 \<le> cycle_day (preds ! i)
                  \<and> cycle_day (preds ! i) \<le> \<lfloor>cycle_length_of stats\<rfloor>
                  \<and> of_int (cycle_day (preds ! i)) \<le> cycle_length_of stats)"
      using g len each by blast
  qed
  show ?thesis by (intro conjI none some)
qed

text \<open>
  With a cycle length of 28.5, thirty days after the last start: one prediction, for
  cycle day 30 mod 28 + 1 = 3. With no entry at all: no last period start, and no
  prediction.
\<close>

theorem predictions_wrapped_witness:
  "(\<exists>stats. calculate_cycle_stats 88 frac_entries = Some stats
     \<and> last_period_start stats = Some 58
     \<and> cycle_length_of stats = 57 / 2
     \<and> valid_date 88 \<and> 88 + 1 - 1 \<le> date_max
     \<and> (\<exists>preds. generate_predictions 88 frac_entries 1 = Some preds
          \<and> length preds = 1
          \<and> date_cp (preds ! 0) = 88
          \<and> cycle_day (preds ! 0) = 3
          \<and> 1 \<le> cycle_day (preds ! 0) \<and> cycle_day (preds ! 0) \<le> 28))
   \<and> (\<exists>stats. calculate_cycle_stats 88 [] = Some stats
     \<and> last_period_start stats = None
     \<and> generate_predictions 88 [] 5 = Some [])"
proof -
  obtain stats0 where s0: "calculate_cycle_stats 88 [] = Some stats0"
    and l0: "last_period_start stats0 = None"
    by (simp add: calculate_cycle_stats_def get_period_starts_def)
  have g0: "generate_predictions 88 [] 5 = Some []"
    using predictions_wrapped [OF s0, of 5] l0 by blast
  have none: "\<exists>stats. calculate_cycle_stats 88 [] = Some stats
     \<and> last_period_start stats = None
     \<and> generate_predictions 88 [] 5 = Some []"
    using s0 l0 g0 by blast
  obtain stats where s: "calculate_cycle_stats 88 frac_entries = Some stats"
    using frac_stats [of 88] by blast
  have l: "last_period_start stats = Some 58" and c: "cycle_length_of stats = 57 / 2"
    using s unfolding frac_stats by (auto simp: cycle_length_of_def)
  have v: "valid_date 88" by (simp add: valid_date_def date_min_def date_max_def)
  have u: "88 + 1 - 1 \<le> date_max" by (simp add: date_max_def)
  from predictions_wrapped [OF s, of 1, THEN conjunct2, rule_format, OF l _ v u]
  obtain preds where p: "generate_predictions 88 frac_entries 1 = Some preds"
    "int (length preds) = 1"
    "\<forall>i < length preds.
                  date_cp (preds ! i) = 88 + int i
                  \<and> cycle_day (preds ! i)
                      = ((88 + int i - 58) mod \<lfloor>cycle_length_of stats\<rfloor>) + 1
                  \<and> 1 \<le> cycle_day (preds ! i)
                  \<and> cycle_day (preds ! i) \<le> \<lfloor>cycle_length_of stats\<rfloor>
                  \<and> of_int (cycle_day (preds ! i)) \<le> cycle_length_of stats"
    by auto
  have len: "length preds = 1" using p(2) by simp
  have z: "date_cp (preds ! 0) = 88" "cycle_day (preds ! 0) = 3"
    using p(3) len unfolding c floor_examples by auto
  have some: "\<exists>stats. calculate_cycle_stats 88 frac_entries = Some stats
     \<and> last_period_start stats = Some 58
     \<and> cycle_length_of stats = 57 / 2
     \<and> valid_date 88 \<and> 88 + 1 - 1 \<le> date_max
     \<and> (\<exists>preds. generate_predictions 88 frac_entries 1 = Some preds
          \<and> length preds = 1
          \<and> date_cp (preds ! 0) = 88
          \<and> cycle_day (preds ! 0) = 3
          \<and> 1 \<le> cycle_day (preds ! 0) \<and> cycle_day (preds ! 0) \<le> 28)"
    using s l c v u p(1) len z by auto
  show ?thesis using some none by (rule conjI)
qed

text \<open>
  Claim C6 as stated fails there: modulo the cycle length 28.5 itself the cycle day
  would be 30 mod 28.5 + 1 = 2.5, and the code returns 3.
\<close>

theorem cycle_day_not_float_mod_counterexample:
  "generate_predictions 88 frac_entries 1 =
     Some [\<lparr>date_cp = 88, cycle_day = 3, phase = ''menstrual'',
            predicted_symptoms = [''cramps'', ''bloating'', ''back_pain''],
            hormone_levels = \<lparr>estrogen_level = ''low'', progesterone_level = ''low'',
                               testosterone_level = ''medium''\<rparr>,
            fertility_status = ''low''\<rparr>]
   \<and> average_cycle_length (the (calculate_cycle_stats 88 frac_entries)) = Some (57 / 2)
   \<and> last_period_start (the (calculate_cycle_stats 88 frac_entries)) = Some 58
   \<and> float_mod (of_int (88 - 58)) (57 / 2) + 1 = 5 / 2
   \<and> (of_int 3 :: rat) \<noteq> float_mod (of_int (88 - 58)) (57 / 2) + 1"
proof -
  have fl: "\<lfloor>(30::rat) / (57 / 2)\<rfloor> = 1" by (rule floor_unique) simp_all
  have fm: "float_mod 30 (57 / 2) = 3 / 2"
    unfolding float_mod_def fl by simp
  show ?thesis using frac_prediction by (simp add: frac_stats fm)
qed

text \<open>
  Claim C10, as the code has it. For every entry list with exactly one period start,
  the statistics leave the average cycle length null. For every \<^verbatim>\<open>days_ahead\<close> such
  that the last prediction date, today + \<^verbatim>\<open>days_ahead\<close> - 1, is not after 9999-12-31
  (today being a calendar date), \<^verbatim>\<open>generate_predictions\<close> returns the full list of
  \<^verbatim>\<open>days_ahead\<close> predictions, not the empty list: each is computed with the default
  cycle length 28 in place of the null average (the wrapped cycle day, the phase, the
  symptoms of the phase, the hormone levels and the fertility).
\<close>

theorem single_start_predictions:
  assumes "get_period_starts es = [start]"
    and "valid_date today" and "today + days_ahead - 1 \<le> date_max"
  shows "\<exists>stats. calculate_cycle_stats today es = Some stats
     \<and> average_cycle_length stats = None
     \<and> last_period_start stats = Some start
     \<and> generate_predictions today es days_ahead =
         Some (map (\<lambda>i.
            \<lparr>date_cp = today + int i,
             cycle_day = (today + int i - start) mod 28 + 1,
             phase = get_current_phase ((today + int i - start) mod 28 + 1) 28,
             predicted_symptoms =
               predict_symptoms (get_current_phase ((today + int i - start) mod 28 + 1) 28),
             hormone_levels = predict_hormone_levels ((today + int i - start) mod 28 + 1) 28,
             fertility_status = predict_fertility ((today + int i - start) mod 28 + 1) 28\<rparr>)
           [0..<nat days_ahead])
     \<and> length (the (generate_predictions today es days_ahead)) = nat days_ahead"
proof -
  have few: "length (get_period_starts es) < 2" using assms(1) by simp
  let ?stats = "\<lparr>average_cycle_length = None, average_period_length = None,
          last_period_start = Some start,
          next_predicted_period = None, next_predicted_ovulation = None,
          current_cycle_day = None, current_phase = None,
          total_cycles_tracked = 1\<rparr>"
  have st: "calculate_cycle_stats today es = Some ?stats"
    using stats_few_starts [OF few, of today] assms(1) by simp
  have l: "last_period_start ?stats = Some start" by simp
  have c: "cycle_length_of ?stats = 28" by (simp add: cycle_length_of_def)
  have g: "generate_predictions today es days_ahead =
      Some (map (prediction_at today start 28) [0..<nat days_ahead])"
    using generate_from_stats [OF st l assms(2) assms(3)] unfolding c .
  show ?thesis
    unfolding g st by (simp add: prediction_at_def Let_def)
qed

text \<open>With the single period start on day 5, two predictions from day 10 on: cycle days 6 and 7.\<close>

theorem single_start_predictions_witness:
  "get_period_starts one_start_entries = [5]
   \<and> valid_date 10 \<and> 10 + 2 - 1 \<le> date_max
   \<and> generate_predictions 10 one_start_entries 2 =
       Some [\<lparr>date_cp = 10, cycle_day = 6, phase = ''follicular'',
              predicted_symptoms = [],
              hormone_levels = \<lparr>estrogen_level = ''medium'', progesterone_level = ''low'',
                                 testosterone_level = ''medium''\<rparr>,
              fertility_status = ''low''\<rparr>,
             \<lparr>date_cp = 11, cycle_day = 7, phase = ''follicular'',
              predicted_symptoms = [],
              hormone_levels = \<lparr>estrogen_level = ''medium'', progesterone_level = ''low'',
                                 testosterone_level = ''medium''\<rparr>,
              fertility_status = ''low''\<rparr>]"
proof -
  have ps: "get_period_starts one_start_entries = [5]"
    by (simp add: get_period_starts_def one_start_entries_def)
  have v: "valid_date 10" by (simp add: valid_date_def date_min_def date_max_def)
  have u: "10 + 2 - 1 \<le> date_max" by (simp add: date_max_def)
  have two: "[0..<nat 2] = [0, 1]" by code_simp
  from single_start_predictions [OF ps v u]
  obtain stats where
    "generate_predictions 10 one_start_entries 2 =
         Some (map (\<lambda>i.
            \<lparr>date_cp = 10 + int i,
             cycle_day = (10 + int i - 5) mod 28 + 1,
             phase = get_current_phase ((10 + int i - 5) mod 28 + 1) 28,
             predicted_symptoms =
               predict_symptoms (get_current_phase ((10 + int i - 5) mod 28 + 1) 28),
             hormone_levels = predict_hormone_levels ((10 + int i - 5) mod 28 + 1) 28,
             fertility_status = predict_fertility ((10 + int i - 5) mod 28 + 1) 28\<rparr>)
           [0..<nat 2])"
    by blast
  then show ?thesis unfolding two using ps v u
    by (simp add: get_current_phase_def predict_symptoms_def predict_hormone_levels_def
        predict_fertility_def luteal_phase_length_def)
qed

text \<open>
  Claim C10 as stated fails for a \<^verbatim>\<open>days_ahead\<close> that reaches past the last date: on
  2026-11-04, with the single period start on day 5 and \<^verbatim>\<open>days_ahead\<close> = 3000000, the
  prediction date at offset 2912136 would fall after 9999-12-31; the addition raises
  and no list is returned.
\<close>

theorem predictions_past_date_max_counterexample:
  "get_period_starts one_start_entries = [5]
   \<and> valid_date (date_ordinal 2026 11 4)
   \<and> date_ordinal 2026 11 4 + 2912135 = date_max
   \<and> generate_predictions (date_ordinal 2026 11 4) one_start_entries 3000000 = None"
proof -
  have ps: "get_period_starts one_start_entries = [5]"
    by (simp add: get_period_starts_def one_start_entries_def)
  have d: "date_ordinal 2026 11 4 = 739924" by (simp add: date_ordinal_def)
  have few: "length (get_period_starts one_start_entries) < 2" by (simp add: ps)
  have l: "last_period_start \<lparr>average_cycle_length = None, average_period_length = None,
          last_period_start =
            (if length (get_period_starts one_start_entries) = 1
             then Some (hd (get_period_starts one_start_entries)) else None),
          next_predicted_period = None, next_predicted_ovulation = None,
          current_cycle_day = None, current_phase = None,
          total_cycles_tracked = int (length (get_period_starts one_start_entries))\<rparr> = Some 5"
    by (simp add: ps)
  have m: "2912136 \<in> set [0..<nat 3000000]" by simp
  have o: "date_add 739924 (int 2912136) = None"
    by (simp add: date_add_def date_max_def)
  have "generate_predictions 739924 one_start_entries 3000000 = None"
    by (rule generate_overflow [OF stats_few_starts [OF few] l m o])
  then show ?thesis
    using ps by (simp add: d valid_date_def date_min_def date_max_def)
qed

section \<open>Candidate predictions\<close>









section \<open>Suggestions\<close>

text \<open>
  The loop over the sorted suggestions keeps, for each key not seen before, its first
  occurrence, and so keeps the order.
\<close>

lemma dedup_loop_keys:
  "suggestion_key ` set (dedup_loop seen xs) = suggestion_key ` set xs - seen"
  by (induction xs arbitrary: seen) (auto simp: Let_def suggestion_key_def)

lemma dedup_loop_subset: "set (dedup_loop seen xs) \<subseteq> set xs"
  by (induction xs arbitrary: seen) (auto simp: Let_def)

lemma dedup_loop_distinct: "distinct (map suggestion_key (dedup_loop seen xs))"
proof (induction xs arbitrary: seen)
  case Nil
  show ?case by simp
next
  case (Cons a xs)
  have "suggestion_key a \<notin> suggestion_key ` set (dedup_loop (insert (suggestion_key a) seen) xs)"
    unfolding dedup_loop_keys by simp
  then show ?case using Cons.IH by (simp add: Let_def suggestion_key_def)
qed

lemma dedup_loop_length:
  "length (dedup_loop seen xs) = card (suggestion_key ` set xs - seen)"
proof -
  have "length (dedup_loop seen xs) = length (map suggestion_key (dedup_loop seen xs))" by simp
  also have "\<dots> = card (set (map suggestion_key (dedup_loop seen xs)))"
    by (rule distinct_card [symmetric]) (rule dedup_loop_distinct)
  also have "\<dots> = card (suggestion_key ` set xs - seen)"
    by (simp add: dedup_loop_keys)
  finally show ?thesis .
qed

lemma dedup_loop_sorted:
  "sorted (map f xs) \<Longrightarrow> sorted (map f (dedup_loop seen xs))"
proof (induction xs arbitrary: seen)
  case Nil
  show ?case by simp
next
  case (Cons a xs)
  have s: "sorted (map f xs)" and le: "\<forall>y \<in> set xs. f a \<le> f y"
    using Cons.prems by auto
  have "\<forall>y \<in> set (dedup_loop (insert (title a, category a) seen) xs). f a \<le> f y"
    using le dedup_loop_subset by blast
  then show ?case using Cons.IH [OF s] by (simp add: Let_def)
qed

lemma dedup_loop_first:
  "s \<in> set (dedup_loop seen xs) \<Longrightarrow>
   find (\<lambda>x. suggestion_key x = suggestion_key s) xs = Some s"
proof (induction xs arbitrary: seen)
  case Nil
  then show ?case by simp
next
  case (Cons a xs)
  show ?case
  proof (cases "suggestion_key a \<in> seen")
    case True
    then have m: "s \<in> set (dedup_loop seen xs)"
      using Cons.prems by (simp add: Let_def suggestion_key_def)
    then have "suggestion_key s \<in> suggestion_key ` set xs - seen"
      unfolding dedup_loop_keys [symmetric] by blast
    then have "suggestion_key a \<noteq> suggestion_key s" using True by auto
    then show ?thesis using Cons.IH [OF m] by simp
  next
    case False
    then have d: "s = a \<or> s \<in> set (dedup_loop (insert (suggestion_key a) seen) xs)"
      using Cons.prems by (simp add: Let_def suggestion_key_def)
    show ?thesis
    proof (cases "s = a")
      case True
      then show ?thesis by simp
    next
      case ne: False
      then have m: "s \<in> set (dedup_loop (insert (suggestion_key a) seen) xs)" using d by simp
      then have "suggestion_key s \<in> suggestion_key ` set xs - insert (suggestion_key a) seen"
        unfolding dedup_loop_keys [symmetric] by blast
      then have "suggestion_key a \<noteq> suggestion_key s" by auto
      then show ?thesis using Cons.IH [OF m] by simp
    qed
  qed
qed

lemma deduplicate_properties:
  "distinct (map suggestion_key (deduplicate_suggestions xs))"
  "sorted (map priority_rank (deduplicate_suggestions xs))"
  "length (deduplicate_suggestions xs) = min 10 (card (suggestion_key ` set xs))"
  "s \<in> set (deduplicate_suggestions xs) \<Longrightarrow>
     find (\<lambda>x. suggestion_key x = suggestion_key s) (sort_key priority_rank xs) = Some s"
proof -
  let ?srt = "sort_key priority_rank xs"
  have d: "deduplicate_suggestions xs = take 10 (dedup_loop {} ?srt)"
    by (simp add: deduplicate_suggestions_def priority_rank_def [abs_def])
  show "distinct (map suggestion_key (deduplicate_suggestions xs))"
    unfolding d take_map [symmetric] by (rule distinct_take) (rule dedup_loop_distinct)
  have "sorted (map priority_rank (dedup_loop {} ?srt))"
    by (rule dedup_loop_sorted) (rule sorted_sort_key)
  then show "sorted (map priority_rank (deduplicate_suggestions xs))"
    unfolding d take_map [symmetric] by (rule sorted_wrt_take)
  show "length (deduplicate_suggestions xs) = min 10 (card (suggestion_key ` set xs))"
    unfolding d by (simp add: dedup_loop_length min.commute)
  assume "s \<in> set (deduplicate_suggestions xs)"
  then have "s \<in> set (dedup_loop {} ?srt)" unfolding d by (rule in_set_takeD)
  then show "find (\<lambda>x. suggestion_key x = suggestion_key s) ?srt = Some s"
    by (rule dedup_loop_first)
qed

text \<open>
  Every produced suggestion is in the catalog, and no two suggestions of the catalog
  share a key: produced suggestions are distinct exactly when their keys are.
\<close>

lemma database_in_catalog:
  "set (suggestion_database key) \<subseteq> set (concat (map snd load_suggestion_database))"
proof (cases "map_of load_suggestion_database key")
  case None
  then show ?thesis by (simp add: suggestion_database_def)
next
  case (Some v)
  then have "(key, v) \<in> set load_suggestion_database" by (rule map_of_SomeD)
  then have "v \<in> snd ` set load_suggestion_database" by (rule image_eqI [rotated]) simp
  moreover have "suggestion_database key = v" using Some by (simp add: suggestion_database_def)
  ultimately show ?thesis by auto
qed

lemma preventive_in_catalog:
  assumes "map_of load_suggestion_database key \<noteq> None"
  shows "set (convert_to_preventive (suggestion_database key))
     \<subseteq> set (concat (map (\<lambda>(k, v). convert_to_preventive v) load_suggestion_database))"
proof -
  from assms obtain v where v: "map_of load_suggestion_database key = Some v" by auto
  then have m: "(key, v) \<in> set load_suggestion_database" by (rule map_of_SomeD)
  have e: "suggestion_database key = v" using v by (simp add: suggestion_database_def)
  have "convert_to_preventive v
      \<in> (\<lambda>(k, v). convert_to_preventive v) ` set load_suggestion_database"
    using m by (rule image_eqI [rotated]) simp
  then show ?thesis unfolding e by auto
qed

lemma current_suggestions_eq:
  "fst (get_current_symptom_suggestions cs) =
     (if headache cs then suggestion_database ''headache'' else [])
     @ (if (case cramps cs of None \<Rightarrow> False
            | Some c \<Rightarrow> c \<noteq> [] \<and> c \<in> set [''moderate'', ''strong''])
        then suggestion_database ''cramps'' else [])
     @ (if nausea cs then suggestion_database ''nausea'' else [])
     @ (if fatigue cs then suggestion_database ''fatigue'' else [])
     @ (if (case mood cs of None \<Rightarrow> False
            | Some m \<Rightarrow> m \<in> set [''sad'', ''irritated'', ''anxious'', ''depressed''])
        then suggestion_database ''mood'' else [])
     @ (if (case sleep_quality cs of None \<Rightarrow> False
            | Some q \<Rightarrow> q \<in> set [''poor'', ''fair''])
        then suggestion_database ''sleep'' else [])"
  unfolding get_current_symptom_suggestions_def Let_def split_beta fst_conv
  by (simp only: if_distrib [of fst] fst_conv)

lemma current_in_catalog:
  "set (fst (get_current_symptom_suggestions cs)) \<subseteq> set (concat (map snd load_suggestion_database))"
proof -
  have c: "set (if b then suggestion_database key else [])
      \<subseteq> set (concat (map snd load_suggestion_database))" for b key
    by (cases b) (simp_all only: if_True if_False database_in_catalog list.set empty_subsetI)
  show ?thesis
    unfolding current_suggestions_eq set_append
    by (intro Un_least c)
qed

lemma preventive_list_in_catalog:
  "set (fst (get_preventive_suggestions predicted))
     \<subseteq> set (concat (map (\<lambda>(k, v). convert_to_preventive v) load_suggestion_database))"
proof -
  have "\<And>pred. map_of load_suggestion_database (symptom pred) \<noteq> None \<Longrightarrow>
      set (convert_to_preventive (suggestion_database (symptom pred)))
      \<subseteq> set (concat (map (\<lambda>(k, v). convert_to_preventive v) load_suggestion_database))"
    by (rule preventive_in_catalog)
  then show ?thesis
    unfolding get_preventive_suggestions_def Let_def fst_conv set_concat
    by (intro UN_least) auto
qed

lemma produced_in_catalog:
  "set (fst (produced_suggestions cur predicted)) \<subseteq> set all_catalog_suggestions"
proof -
  have a: "set (case cur of None \<Rightarrow> [] | Some cs \<Rightarrow> fst (get_current_symptom_suggestions cs))
      \<subseteq> set (concat (map snd load_suggestion_database))"
    using current_in_catalog by (cases cur) simp_all
  have b: "set (if predicted \<noteq> [] then fst (get_preventive_suggestions predicted) else [])
      \<subseteq> set (concat (map (\<lambda>(k, v). convert_to_preventive v) load_suggestion_database))"
    using preventive_list_in_catalog [of predicted] by (cases "predicted = []") simp_all
  have f: "fst (produced_suggestions cur predicted) =
      (case cur of None \<Rightarrow> [] | Some cs \<Rightarrow> fst (get_current_symptom_suggestions cs))
      @ (if predicted \<noteq> [] then fst (get_preventive_suggestions predicted) else [])
      @ get_general_wellness_suggestions"
    by (cases cur; cases "predicted = []")
      (simp_all add: produced_suggestions_def split_beta)
  show ?thesis
    unfolding f all_catalog_suggestions_def set_append using a b by blast
qed

lemma catalog_keys_distinct: "distinct (map suggestion_key all_catalog_suggestions)"
  by (simp add: all_catalog_suggestions_def load_suggestion_database_def
      convert_to_preventive_def get_general_wellness_suggestions_def suggestion_key_def)

lemma produced_card_keys:
  "card (suggestion_key ` set (fst (produced_suggestions cur predicted)))
     = card (set (fst (produced_suggestions cur predicted)))"
proof -
  have "inj_on suggestion_key (set all_catalog_suggestions)"
    using catalog_keys_distinct by (simp add: distinct_map)
  then have "inj_on suggestion_key (set (fst (produced_suggestions cur predicted)))"
    by (rule inj_on_subset) (rule produced_in_catalog)
  then show ?thesis by (rule card_image)
qed

text \<open>
  Claim C9. For every input to \<^verbatim>\<open>generate_suggestions\<close>, the returned list holds no
  two suggestions with the same (title, category) pair; it is ordered by ascending
  priority rank, where high is 0, medium 1, low 2 and anything else 3; each suggestion
  in it is the first of its key among the produced suggestions stably sorted by rank;
  its length is the smaller of 10 and the number of distinct suggestions produced, so at
  most 10, and exactly 10 when more than 10 distinct suggestions are produced.
\<close>

theorem suggestions_deduplicated_sorted_capped:
  "distinct (map suggestion_key (suggestions (generate_suggestions today cur predicted)))
   \<and> sorted (map priority_rank (suggestions (generate_suggestions today cur predicted)))
   \<and> priority_order ''high'' = 0 \<and> priority_order ''medium'' = 1 \<and> priority_order ''low'' = 2
   \<and> (p \<notin> {''high'', ''medium'', ''low''} \<longrightarrow> priority_order p = 3)
   \<and> (\<forall>s \<in> set (suggestions (generate_suggestions today cur predicted)).
        find (\<lambda>x. suggestion_key x = suggestion_key s)
          (sort_key priority_rank (fst (produced_suggestions cur predicted))) = Some s)
   \<and> length (suggestions (generate_suggestions today cur predicted))
       = min 10 (card (set (fst (produced_suggestions cur predicted))))
   \<and> length (suggestions (generate_suggestions today cur predicted)) \<le> 10
   \<and> (10 < card (set (fst (produced_suggestions cur predicted))) \<longrightarrow>
        length (suggestions (generate_suggestions today cur predicted)) = 10)"
proof -
  have g: "suggestions (generate_suggestions today cur predicted)
      = deduplicate_suggestions (fst (produced_suggestions cur predicted))"
    by (simp add: generate_suggestions_def split: prod.splits)
  have r: "priority_order ''high'' = 0 \<and> priority_order ''medium'' = 1
      \<and> priority_order ''low'' = 2
      \<and> (p \<notin> {''high'', ''medium'', ''low''} \<longrightarrow> priority_order p = 3)"
    by (simp add: priority_order_def)
  show ?thesis
    unfolding g
    using deduplicate_properties [where xs = "fst (produced_suggestions cur predicted)"] r
    unfolding produced_card_keys
    by simp
qed

text \<open>
  With a headache, strong cramps, nausea and fatigue today and fatigue predicted, 19
  distinct suggestions are produced; 10 are returned, eight of high priority and then
  two of medium priority.
\<close>

lemma many_keys:
  "map suggestion_key (fst (produced_suggestions (Some many_symptoms) fatigue_predicted)) =
     [(''Stay Hydrated'', ''remedy''), (''Rest in Dark Room'', ''lifestyle''),
      (''Cold/Warm Compress'', ''remedy''), (''Over-the-Counter Pain Relief'', ''medical''),
      (''Heat Therapy'', ''remedy''), (''Gentle Exercise'', ''lifestyle''),
      (''Warm Bath'', ''remedy''), (''Anti-inflammatory Medication'', ''medical''),
      (''Ginger Tea'', ''remedy''), (''Small, Frequent Meals'', ''lifestyle''),
      (''Peppermint'', ''remedy''),
      (''Prioritize Sleep'', ''lifestyle''), (''Iron-Rich Foods'', ''lifestyle''),
      (''Light Exercise'', ''lifestyle''),
      (''Prevent: Prioritize Sleep'', ''preventive''),
      (''Prevent: Iron-Rich Foods'', ''preventive''),
      (''Prevent: Light Exercise'', ''preventive''),
      (''Stay Hydrated'', ''lifestyle''), (''Balanced Nutrition'', ''lifestyle'')]"
  by (simp add: produced_suggestions_def get_current_symptom_suggestions_def
      get_preventive_suggestions_def convert_to_preventive_def
      get_general_wellness_suggestions_def suggestion_database_def
      load_suggestion_database_def many_symptoms_def fatigue_predicted_def suggestion_key_def)

lemma many_card:
  "card (set (fst (produced_suggestions (Some many_symptoms) fatigue_predicted))) = 19"
  unfolding produced_card_keys [symmetric] set_map [symmetric] many_keys
  by (simp add: card_insert_if)

lemma many_out:
  "map (\<lambda>s. (title s, category s, priority s))
     (suggestions (generate_suggestions 0 (Some many_symptoms) fatigue_predicted)) =
   [(''Stay Hydrated'', ''remedy'', ''high''),
    (''Rest in Dark Room'', ''lifestyle'', ''high''),
    (''Heat Therapy'', ''remedy'', ''high''),
    (''Gentle Exercise'', ''lifestyle'', ''high''),
    (''Ginger Tea'', ''remedy'', ''high''),
    (''Small, Frequent Meals'', ''lifestyle'', ''high''),
    (''Prioritize Sleep'', ''lifestyle'', ''high''),
    (''Iron-Rich Foods'', ''lifestyle'', ''high''),
    (''Cold/Warm Compress'', ''remedy'', ''medium''),
    (''Over-the-Counter Pain Relief'', ''medical'', ''medium'')]"
  by (simp add: generate_suggestions_def deduplicate_suggestions_def priority_order_def
      produced_suggestions_def get_current_symptom_suggestions_def
      get_preventive_suggestions_def convert_to_preventive_def
      get_general_wellness_suggestions_def suggestion_database_def
      load_suggestion_database_def many_symptoms_def fatigue_predicted_def)

theorem suggestions_deduplicated_sorted_capped_witness:
  "10 < card (set (fst (produced_suggestions (Some many_symptoms) fatigue_predicted)))
   \<and> length (suggestions (generate_suggestions 0 (Some many_symptoms) fatigue_predicted)) = 10
   \<and> distinct (map suggestion_key
        (suggestions (generate_suggestions 0 (Some many_symptoms) fatigue_predicted)))
   \<and> map priority (suggestions (generate_suggestions 0 (Some many_symptoms) fatigue_predicted))
       = [''high'', ''high'', ''high'', ''high'', ''high'', ''high'', ''high'', ''high'',
          ''medium'', ''medium'']
   \<and> ''urgent'' \<notin> {''high'', ''medium'', ''low''} \<and> priority_order ''urgent'' = 3
   \<and> hd (suggestions (generate_suggestions 0 (Some many_symptoms) fatigue_predicted))
       \<in> set (suggestions (generate_suggestions 0 (Some many_symptoms) fatigue_predicted))
   \<and> find (\<lambda>x. suggestion_key x = (''Stay Hydrated'', ''remedy''))
        (sort_key priority_rank (fst (produced_suggestions (Some many_symptoms) fatigue_predicted)))
       = Some (hd (suggestions (generate_suggestions 0 (Some many_symptoms) fatigue_predicted)))"
proof -
  let ?out = "suggestions (generate_suggestions 0 (Some many_symptoms) fatigue_predicted)"
  have c: "10 < card (set (fst (produced_suggestions (Some many_symptoms) fatigue_predicted)))"
    unfolding many_card by simp
  have p: "map priority ?out
       = [''high'', ''high'', ''high'', ''high'', ''high'', ''high'', ''high'', ''high'',
          ''medium'', ''medium'']"
    using arg_cong [OF many_out, of "map (\<lambda>t. snd (snd t))"] by (simp add: o_def)
  have ne: "?out \<noteq> []" using p by auto
  have m: "hd ?out \<in> set ?out" using ne by simp
  have "hd (map (\<lambda>s. (title s, category s, priority s)) ?out)
      = (''Stay Hydrated'', ''remedy'', ''high'')"
    unfolding many_out by simp
  then have k: "suggestion_key (hd ?out) = (''Stay Hydrated'', ''remedy'')"
    using ne by (simp add: hd_map suggestion_key_def)
  have u: "''urgent'' \<notin> {''high'', ''medium'', ''low''}" by simp
  note t = suggestions_deduplicated_sorted_capped
    [where today = 0 and cur = "Some many_symptoms" and predicted = fatigue_predicted
       and p = "''urgent''"]
  have f: "find (\<lambda>x. suggestion_key x = suggestion_key (hd ?out))
        (sort_key priority_rank (fst (produced_suggestions (Some many_symptoms) fatigue_predicted)))
       = Some (hd ?out)"
    using t m by blast
  have l: "length ?out = 10" using t c by blast
  have d: "distinct (map suggestion_key ?out)" using t by blast
  have r: "priority_order ''urgent'' = 3" using t u by blast
  show ?thesis using c l d p u r m f unfolding k by (intro conjI)
qed

end
